theory Spec2Isabelle
  imports Main "HOL-Library.Sublist"
begin

section \<open>The migration pipeline (pipeline/migration.py)\<close>

subsection \<open>Data model\<close>

text \<open>
  Python exceptions, with the text that \<^verbatim>\<open>str(e)\<close> yields: the orchestrator stores
  that text in \<^verbatim>\<open>state.error\<close>. \<^verbatim>\<open>str(KeyError('k'))\<close> is the repr of the key.
\<close>

datatype py_exn =
    RuntimeError string
  | KeyError string
  | ValueError string
  | NotImplementedError string
  | UnicodeEncodeError string
  | FileNotFoundError string
  | OtherError string

fun exn_str :: "py_exn \<Rightarrow> string" where
  "exn_str (RuntimeError m) = m"
| "exn_str (KeyError k) = [CHR 0x27] @ k @ [CHR 0x27]"
| "exn_str (ValueError m) = m"
| "exn_str (NotImplementedError m) = m"
| "exn_str (UnicodeEncodeError m) = m"
| "exn_str (FileNotFoundError m) = m"
| "exn_str (OtherError m) = m"

text \<open>
  The artifact bag \<^verbatim>\<open>state.artifacts\<close> is a Python dict. Its keys in this file are
  nine string literals, and each key is assigned at one place with a value of one type:
  \<^verbatim>\<open>vm_info\<close> a dict (line 253; only its string entries \<^verbatim>\<open>guest_os\<close> and
  \<^verbatim>\<open>firmware\<close> are read), \<^verbatim>\<open>snapshot_name\<close> a string (282), \<^verbatim>\<open>vmdk_paths\<close>,
  \<^verbatim>\<open>qcow2_paths\<close> and \<^verbatim>\<open>s3_keys\<close> lists of strings (305, 505, 711),
  \<^verbatim>\<open>s3_bucket\<close> and the Scaleway identifiers strings (712, 748, 757). The bag is a
  record with one optional field per key: \<open>None\<close> is an absent key, so that
  \<^verbatim>\<open>artifacts.get(k, d)\<close> is a case distinction with \<open>d\<close> for \<open>None\<close> and
  \<^verbatim>\<open>artifacts[k]\<close> raises \<^verbatim>\<open>KeyError\<close> for \<open>None\<close>.
\<close>

record artifacts =
  vm_info :: "(string \<times> string) list option"
  snapshot_name :: "string option"
  vmdk_paths :: "string list option"
  qcow2_paths :: "string list option"
  s3_keys :: "string list option"
  s3_bucket :: "string option"
  scaleway_snapshot_id :: "string option"
  scaleway_image_id :: "string option"
  scaleway_instance_id :: "string option"

definition no_artifacts :: artifacts where
  "no_artifacts =
     \<lparr>vm_info = None, snapshot_name = None, vmdk_paths = None, qcow2_paths = None,
      s3_keys = None, s3_bucket = None, scaleway_snapshot_id = None,
      scaleway_image_id = None, scaleway_instance_id = None\<rparr>"

text \<open>
  Modelled from the spec: \<^verbatim>\<open>VMMigrationPlan\<close> (vmware2scw/config.py is not among the
  sources). The fields are the ones \<^verbatim>\<open>run\<close> reads; \<^verbatim>\<open>resume\<close> builds a plan without
  \<^verbatim>\<open>skip_validation\<close>, which therefore has a default, taken to be off (validation is
  omitted only by caller request).
\<close>

record VMMigrationPlan =
  plan_vm_name :: string
  plan_target_type :: string
  plan_zone :: string
  skip_validation :: bool

text \<open>
  Modelled from the spec: \<^verbatim>\<open>MigrationState\<close> (vmware2scw/pipeline/state.py is not among
  the sources). The fields are those \<^verbatim>\<open>run\<close> passes to the constructor, and
  \<^verbatim>\<open>error\<close>, which \<^verbatim>\<open>run\<close> and \<^verbatim>\<open>resume\<close> assign.
\<close>

record MigrationState =
  migration_id :: string
  vm_name :: string
  target_type :: string
  zone :: string
  current_stage :: string
  completed_stages :: "string list"
  artifacts :: artifacts
  started_at :: nat
  error :: "string option"

text \<open>The dataclass \<^verbatim>\<open>MigrationResult\<close>; the wall-clock \<^verbatim>\<open>duration\<close> is left out.\<close>

record MigrationResult =
  success :: bool
  res_migration_id :: string
  res_vm_name :: string
  instance_id :: "string option"
  image_id :: "string option"
  failed_stage :: "string option"
  res_error :: "string option"
  res_completed_stages :: "string list"

text \<open>The class constant \<^verbatim>\<open>MigrationPipeline.STAGES\<close>.\<close>

definition STAGES :: "string list" where
  "STAGES =
    [''validate'', ''snapshot'', ''export'', ''convert'', ''clean_tools'',
     ''inject_virtio'', ''fix_bootloader'', ''ensure_uefi'', ''fix_network'',
     ''upload_s3'', ''import_scw'', ''verify'', ''cleanup'']"

text \<open>Python's \<^verbatim>\<open>list.index\<close>: the first position of a value, if it occurs.\<close>

fun index_of :: "'a \<Rightarrow> 'a list \<Rightarrow> nat option" where
  "index_of x [] = None"
| "index_of x (y # ys) =
     (if x = y then Some 0 else map_option Suc (index_of x ys))"

subsection \<open>The system a pipeline runs in\<close>

text \<open>
  A stage handler is a method \<^verbatim>\<open>_stage_<name>(self, plan, state)\<close>. It acts on the
  outside world (type \<open>'w\<close>: disks, the hypervisor, the cloud), it returns or raises,
  and of the state it assigns only entries of \<^verbatim>\<open>state.artifacts\<close> (every handler in
  the source does so, none assigns another field). What it leaves in the bag is kept
  also when it raises.
\<close>

datatype outcome = Returned | Raised py_exn

type_synonym 'w handler =
  "VMMigrationPlan \<Rightarrow> MigrationState \<Rightarrow> 'w \<Rightarrow> outcome \<times> artifacts \<times> 'w"

text \<open>
  The system: the persisted states (\<open>store\<close>), the outside world, and two histories
  kept for stating properties: every state handed to \<^verbatim>\<open>state_store.save\<close>
  (\<open>saves\<close>, oldest first) and the name of every stage whose handler was invoked
  (\<open>invoked\<close>, oldest first).
\<close>

record 'w system =
  store :: "string \<rightharpoonup> MigrationState"
  saves :: "MigrationState list"
  invoked :: "string list"
  world :: 'w

text \<open>
  Modelled from the spec: \<^verbatim>\<open>MigrationStateStore\<close> (vmware2scw/pipeline/state.py is not
  among the sources). \<^verbatim>\<open>save(state)\<close> persists the full state keyed by its
  \<^verbatim>\<open>migration_id\<close>; \<^verbatim>\<open>load(migration_id)\<close> returns the persisted state or nothing.
\<close>

definition save :: "MigrationState \<Rightarrow> 'w system \<Rightarrow> 'w system" where
  "save st sys =
     sys\<lparr>store := (store sys)(migration_id st \<mapsto> st), saves := saves sys @ [st]\<rparr>"

definition load :: "string \<Rightarrow> 'w system \<Rightarrow> MigrationState option" where
  "load mid sys = store sys mid"

subsection \<open>Executing stages\<close>

text \<open>
  \<^verbatim>\<open>_execute_stage\<close>: the handler is looked up by name (\<^verbatim>\<open>getattr\<close> with default
  \<^verbatim>\<open>None\<close>); a missing handler raises \<^verbatim>\<open>NotImplementedError\<close>, otherwise the handler
  is called. The table \<open>hs\<close> stands for the methods of the class.
\<close>

definition execute_stage ::
  "(string \<Rightarrow> 'w handler option) \<Rightarrow> string \<Rightarrow> VMMigrationPlan \<Rightarrow> MigrationState \<Rightarrow>
     'w system \<Rightarrow> outcome \<times> MigrationState \<times> 'w system" where
  "execute_stage hs stage plan st sys =
     (case hs stage of
        None \<Rightarrow>
          (Raised (NotImplementedError (''Stage '' @ [CHR 0x27] @ stage @ [CHR 0x27] @
             '' not implemented yet'')), st, sys)
      | Some handler \<Rightarrow>
          (case handler plan st (world sys) of
             (res, arts, w) \<Rightarrow>
               (res, st\<lparr>artifacts := arts\<rparr>,
                sys\<lparr>invoked := invoked sys @ [stage], world := w\<rparr>)))"

text \<open>
  The loop over stage names, the same in \<^verbatim>\<open>run\<close> (lines 107-132) and in
  \<^verbatim>\<open>resume\<close> (lines 175-199): set \<^verbatim>\<open>current_stage\<close> and save; execute; on return
  append the name to \<^verbatim>\<open>completed_stages\<close> and save; on an exception record its text,
  save and stop. The result is the failing stage with its exception, if any.
\<close>

fun run_stages ::
  "(string \<Rightarrow> 'w handler option) \<Rightarrow> VMMigrationPlan \<Rightarrow> string list \<Rightarrow> MigrationState \<Rightarrow>
     'w system \<Rightarrow> (string \<times> py_exn) option \<times> MigrationState \<times> 'w system" where
  "run_stages hs plan [] st sys = (None, st, sys)"
| "run_stages hs plan (stage_name # rest) st sys =
     (let st1 = st\<lparr>current_stage := stage_name\<rparr>;
          sys1 = save st1 sys
      in case execute_stage hs stage_name plan st1 sys1 of
           (Returned, st2, sys2) \<Rightarrow>
             (let st3 = st2\<lparr>completed_stages := completed_stages st2 @ [stage_name]\<rparr>;
                  sys3 = save st3 sys2
              in run_stages hs plan rest st3 sys3)
         | (Raised e, st2, sys2) \<Rightarrow>
             (let st3 = st2\<lparr>error := Some (exn_str e)\<rparr>;
                  sys3 = save st3 sys2
              in (Some (stage_name, e), st3, sys3)))"

text \<open>
  \<^verbatim>\<open>run(plan)\<close>. The fresh identifier (\<^verbatim>\<open>uuid4\<close>) and the start time are inputs.
\<close>

definition run ::
  "(string \<Rightarrow> 'w handler option) \<Rightarrow> string \<Rightarrow> nat \<Rightarrow> VMMigrationPlan \<Rightarrow> 'w system \<Rightarrow>
     MigrationResult \<times> 'w system" where
  "run hs mid now plan sys =
     (let state = \<lparr>migration_id = mid, vm_name = plan_vm_name plan,
                   target_type = plan_target_type plan, zone = plan_zone plan,
                   current_stage = [], completed_stages = [], artifacts = no_artifacts,
                   started_at = now, error = None\<rparr>;
          sys1 = save state sys;
          stages_to_run =
            (if skip_validation plan then filter (\<lambda>s. s \<noteq> ''validate'') STAGES
             else STAGES)
      in case run_stages hs plan stages_to_run state sys1 of
           (Some (stage_name, e), st, sys2) \<Rightarrow>
             (\<lparr>success = False, res_migration_id = mid, res_vm_name = plan_vm_name plan,
               instance_id = None, image_id = None, failed_stage = Some stage_name,
               res_error = Some (exn_str e),
               res_completed_stages = completed_stages st\<rparr>, sys2)
         | (None, st, sys2) \<Rightarrow>
             (\<lparr>success = True, res_migration_id = mid, res_vm_name = plan_vm_name plan,
               instance_id = scaleway_instance_id (artifacts st),
               image_id = scaleway_image_id (artifacts st), failed_stage = None,
               res_error = None, res_completed_stages = completed_stages st\<rparr>, sys2))"

text \<open>
  \<^verbatim>\<open>resume(migration_id)\<close>: \<^verbatim>\<open>ValueError\<close> when nothing is persisted under the
  identifier; the remaining stages are the registry stages not in
  \<^verbatim>\<open>completed_stages\<close>; with none remaining it returns at once.
\<close>

definition remaining_stages :: "MigrationState \<Rightarrow> string list" where
  "remaining_stages state = filter (\<lambda>s. s \<notin> set (completed_stages state)) STAGES"

definition resume ::
  "(string \<Rightarrow> 'w handler option) \<Rightarrow> string \<Rightarrow> 'w system \<Rightarrow>
     (py_exn + MigrationResult) \<times> 'w system" where
  "resume hs mid sys =
     (case load mid sys of
        None \<Rightarrow>
          (Inl (ValueError (''Migration '' @ [CHR 0x27] @ mid @ [CHR 0x27] @ '' not found'')),
           sys)
      | Some state \<Rightarrow>
          (let plan = \<lparr>plan_vm_name = vm_name state, plan_target_type = target_type state,
                       plan_zone = zone state, skip_validation = False\<rparr>;
               remaining = remaining_stages state
           in if remaining = [] then
                (Inr \<lparr>success = True, res_migration_id = mid, res_vm_name = vm_name state,
                      instance_id = None, image_id = None, failed_stage = None,
                      res_error = None,
                      res_completed_stages = completed_stages state\<rparr>, sys)
              else
                (case run_stages hs plan remaining (state\<lparr>error := None\<rparr>) sys of
                   (Some (stage_name, e), st, sys2) \<Rightarrow>
                     (Inr \<lparr>success = False, res_migration_id = mid,
                           res_vm_name = vm_name st, instance_id = None, image_id = None,
                           failed_stage = Some stage_name, res_error = Some (exn_str e),
                           res_completed_stages = completed_stages st\<rparr>, sys2)
                 | (None, st, sys2) \<Rightarrow>
                     (Inr \<lparr>success = True, res_migration_id = mid,
                           res_vm_name = vm_name st,
                           instance_id = scaleway_instance_id (artifacts st),
                           image_id = scaleway_image_id (artifacts st),
                           failed_stage = None, res_error = None,
                           res_completed_stages = completed_stages st\<rparr>, sys2))))"

subsection \<open>The world of the stage handlers\<close>

text \<open>
  What a handler can touch: the log, the files of the conversion host (a path is absent,
  a regular file with its size in bytes, or a directory) and everything else outside
  the process (type \<open>'x\<close>: guest images, the hypervisor, the cloud). Paths are strings
  in the normal form \<^verbatim>\<open>pathlib\<close> gives them (no doubled or trailing slash).
\<close>

datatype node = File nat | Dir

record 'x world =
  wlog :: "(string \<times> string) list"
  files :: "string \<rightharpoonup> node"
  outside :: 'x

definition log_info :: "string \<Rightarrow> 'x world \<Rightarrow> 'x world" where
  "log_info msg w = w\<lparr>wlog := wlog w @ [(''INFO'', msg)]\<rparr>"

definition log_warning :: "string \<Rightarrow> 'x world \<Rightarrow> 'x world" where
  "log_warning msg w = w\<lparr>wlog := wlog w @ [(''WARNING'', msg)]\<rparr>"

text \<open>The em dash of the log and error messages, as its three UTF-8 bytes.\<close>

definition em_dash :: string where
  "em_dash = [CHR 0xE2, CHR 0x80, CHR 0x94]"

text \<open>Decimal digits of a natural number, as \<^verbatim>\<open>str(n)\<close> and \<^verbatim>\<open>f"{n}"\<close> give them.\<close>

fun str_of_nat :: "nat \<Rightarrow> string" where
  "str_of_nat n =
     (if n < 10 then [''0123456789'' ! n]
      else str_of_nat (n div 10) @ [''0123456789'' ! (n mod 10)])"

text \<open>
  \<^verbatim>\<open>f"{size / (1024**2):.0f}"\<close>: the size in MiB rounded to the nearest integer, a
  tie going to the even one. The division by a power of two is exact in floating point
  for every file size below \<open>2^53\<close> bytes.
\<close>

definition fmt_mb :: "nat \<Rightarrow> string" where
  "fmt_mb sz =
     (let q = sz div 1048576; r = sz mod 1048576
      in str_of_nat (if r < 524288 then q
                     else if r > 524288 then q + 1
                     else if even q then q else q + 1))"

text \<open>
  \<^verbatim>\<open>Path(p).name\<close>, \<^verbatim>\<open>Path(p).suffix\<close> and \<^verbatim>\<open>Path(p).with_suffix(s)\<close> on a path in
  normal form: the name is the last component, and it is empty for the root and for the
  current directory \<^verbatim>\<open>.\<close>; the suffix starts at the last dot of the name unless that
  dot is its first or its last character; \<^verbatim>\<open>with_suffix\<close> raises \<^verbatim>\<open>ValueError\<close> on an
  empty name.
\<close>

definition path_name :: "string \<Rightarrow> string" where
  "path_name p =
     (if p = ''.'' then [] else rev (takeWhile (\<lambda>c. c \<noteq> CHR ''/'') (rev p)))"

definition path_suffix :: "string \<Rightarrow> string" where
  "path_suffix p =
     (let name = path_name p;
          tail = rev (takeWhile (\<lambda>c. c \<noteq> CHR ''.'') (rev name))
      in if CHR ''.'' \<in> set name \<and> tail \<noteq> [] \<and> Suc (length tail) < length name
         then CHR ''.'' # tail else [])"

definition with_suffix :: "string \<Rightarrow> string \<Rightarrow> py_exn + string" where
  "with_suffix p sfx =
     (if path_name p = []
      then Inl (ValueError (''PosixPath('' @ [CHR 0x27] @ (if p = [] then ''.'' else p) @
             [CHR 0x27] @ '') has an empty name''))
      else Inr (take (length p - length (path_suffix p)) p @ sfx))"

text \<open>
  \<^verbatim>\<open>Path.unlink()\<close>: removes a regular file; raises on a directory
  (\<^verbatim>\<open>IsADirectoryError\<close>) and on a missing path (\<^verbatim>\<open>FileNotFoundError\<close>).
\<close>

definition unlink :: "string \<Rightarrow> 'x world \<Rightarrow> py_exn option \<times> 'x world" where
  "unlink p w =
     (case files w p of
        Some (File n) \<Rightarrow> (None, w\<lparr>files := (files w)(p := None)\<rparr>)
      | Some Dir \<Rightarrow> (Some (OtherError (''IsADirectoryError: '' @ p)), w)
      | None \<Rightarrow> (Some (OtherError (''FileNotFoundError: '' @ p)), w))"

text \<open>
  The collaborators of the handlers, none of which is among the sources
  (\<^verbatim>\<open>ResourceMapper\<close>, \<^verbatim>\<open>VMwareToolsCleaner\<close>, \<^verbatim>\<open>DiskConverter\<close>,
  \<^verbatim>\<open>ScalewayInstanceAPI\<close>, \<^verbatim>\<open>ScalewayS3\<close>, \<^verbatim>\<open>run_command\<close>, \<^verbatim>\<open>detect_boot_type\<close>,
  \<^verbatim>\<open>convert_bios_to_uefi\<close>, \<^verbatim>\<open>SnapshotManager\<close>, \<^verbatim>\<open>ScalewayS3Client\<close>): parameters of
  the model. A collaborator that acts on the world may change it in any way and may
  raise; that holds of \<^verbatim>\<open>get_os_family\<close> too, which returns a pair, as its call sites
  unpack it. \<^verbatim>\<open>check\<close> yields a truth value. The two calls that create cloud objects
  return a dict, of which the handler reads the entry \<^verbatim>\<open>id\<close>.
  \<open>inject_virtio_disk\<close> stands for lines 361-471 of \<^verbatim>\<open>_stage_inject_virtio\<close>, the work
  on the boot disk once there is one: it drives \<^verbatim>\<open>virt-v2v\<close>, \<^verbatim>\<open>qemu-img\<close> and the
  fallback injector, and assigns no artifact. \<open>delete_migration_snapshot\<close> stands for
  the connection to vSphere and the deletion (lines 792-802), \<open>s3_transit_client\<close> for
  the construction of the client (lines 813-818).
\<close>

record 'x collab =
  get_os_family :: "string \<Rightarrow> 'x world \<Rightarrow> (py_exn + string \<times> string) \<times> 'x world"
  cleaner_clean :: "string \<Rightarrow> string \<Rightarrow> 'x world \<Rightarrow> py_exn option \<times> 'x world"
  converter_check :: "string \<Rightarrow> 'x world \<Rightarrow> bool"
  converter_convert ::
    "string \<Rightarrow> string \<Rightarrow> bool \<Rightarrow> 'x world \<Rightarrow> py_exn option \<times> 'x world"
  create_snapshot_from_s3 ::
    "string \<Rightarrow> string \<Rightarrow> string \<Rightarrow> string \<Rightarrow> 'x world \<Rightarrow>
       (py_exn + (string \<times> string) list) \<times> 'x world"
  wait_for_snapshot :: "string \<Rightarrow> string \<Rightarrow> 'x world \<Rightarrow> py_exn option \<times> 'x world"
  create_image ::
    "string \<Rightarrow> string \<Rightarrow> string \<Rightarrow> 'x world \<Rightarrow>
       (py_exn + (string \<times> string) list) \<times> 'x world"
  inject_virtio_disk :: "string \<Rightarrow> string \<Rightarrow> 'x world \<Rightarrow> py_exn option \<times> 'x world"
  run_command ::
    "string list \<Rightarrow> (string \<times> string) list \<Rightarrow> bool \<Rightarrow> 'x world \<Rightarrow>
       py_exn option \<times> 'x world"
  detect_boot_type :: "string \<Rightarrow> 'x world \<Rightarrow> (py_exn + string) \<times> 'x world"
  convert_bios_to_uefi ::
    "string \<Rightarrow> string \<Rightarrow> 'x world \<Rightarrow> (py_exn + bool) \<times> 'x world"
  create_bucket_if_not_exists :: "string \<Rightarrow> 'x world \<Rightarrow> py_exn option \<times> 'x world"
  check_object_exists ::
    "string \<Rightarrow> string \<Rightarrow> 'x world \<Rightarrow> (py_exn + bool) \<times> 'x world"
  get_object_size :: "string \<Rightarrow> string \<Rightarrow> 'x world \<Rightarrow> (py_exn + int) \<times> 'x world"
  upload_image ::
    "string \<Rightarrow> string \<Rightarrow> string \<Rightarrow> 'x world \<Rightarrow> py_exn option \<times> 'x world"
  delete_migration_snapshot ::
    "string \<Rightarrow> string \<Rightarrow> 'x world \<Rightarrow> py_exn option \<times> 'x world"
  s3_transit_client :: "'x world \<Rightarrow> py_exn option \<times> 'x world"
  delete_object :: "string \<Rightarrow> string \<Rightarrow> 'x world \<Rightarrow> py_exn option \<times> 'x world"

text \<open>
  Modelled from the spec: the part of \<^verbatim>\<open>AppConfig\<close> (vmware2scw/config.py is not among
  the sources) that the handlers below read.
\<close>

record AppConfig =
  compress_qcow2 :: bool

subsection \<open>Stage handlers\<close>

text \<open>
  \<^verbatim>\<open>state.artifacts.get("vm_info", {}).get(key, default)\<close> and
  \<^verbatim>\<open>state.artifacts.get("qcow2_paths", [])\<close>.
\<close>

definition vm_info_get :: "MigrationState \<Rightarrow> string \<Rightarrow> string \<Rightarrow> string" where
  "vm_info_get state key dflt =
     (case map_of (case vm_info (artifacts state) of None \<Rightarrow> [] | Some d \<Rightarrow> d) key of
        None \<Rightarrow> dflt
      | Some v \<Rightarrow> v)"

definition qcow2_list :: "MigrationState \<Rightarrow> string list" where
  "qcow2_list state = (case qcow2_paths (artifacts state) of None \<Rightarrow> [] | Some ps \<Rightarrow> ps)"

text \<open>
  \<^verbatim>\<open>_stage_clean_tools\<close> (lines 309-335). The OS family is looked up before the list of
  disks is.
\<close>

definition stage_clean_tools :: "'x collab \<Rightarrow> 'x world handler" where
  "stage_clean_tools c plan state w =
     (case get_os_family c (vm_info_get state ''guest_os'' ''otherLinux64Guest'') w of
        (Inl e, w0) \<Rightarrow> (Raised e, artifacts state, w0)
      | (Inr (os_family, variant), w0) \<Rightarrow>
          (case qcow2_list state of
             [] \<Rightarrow>
               (Returned, artifacts state,
                log_warning (''No qcow2 files found '' @ em_dash @ '' skipping clean_tools'')
                  w0)
           | boot_disk # data_disks \<Rightarrow>
               (let w1 = log_info (''Cleaning boot disk: '' @ path_name boot_disk) w0
                in case cleaner_clean c boot_disk os_family w1 of
                     (Some e, w2) \<Rightarrow> (Raised e, artifacts state, w2)
                   | (None, w2) \<Rightarrow>
                       (Returned, artifacts state,
                        if length (qcow2_list state) > 1
                        then log_info (''Skipping '' @
                               str_of_nat (length (qcow2_list state) - 1) @
                               '' data disk(s) '' @ em_dash @ '' no OS to clean'') w2
                        else w2))))"

text \<open>
  \<^verbatim>\<open>_stage_convert\<close> (lines 481-513). The first loop converts each VMDK unless a valid
  qcow2 is already there; an exception leaves \<^verbatim>\<open>qcow2_paths\<close> unassigned. The second
  loop deletes the VMDK files that exist.
\<close>

fun convert_loop ::
  "'x collab \<Rightarrow> AppConfig \<Rightarrow> string list \<Rightarrow> string list \<Rightarrow> 'x world \<Rightarrow>
     (py_exn + string list) \<times> 'x world" where
  "convert_loop c cfg [] qcow2 w = (Inr qcow2, w)"
| "convert_loop c cfg (vmdk # rest) qcow2 w =
     (case with_suffix vmdk ''.qcow2'' of
        Inl e \<Rightarrow> (Inl e, w)
      | Inr qcow2_path \<Rightarrow>
          if files w qcow2_path \<noteq> None \<and> converter_check c qcow2_path w then
            convert_loop c cfg rest (qcow2 @ [qcow2_path])
              (log_info (''Skipping conversion (already exists): '' @ path_name qcow2_path) w)
          else
            (case converter_convert c vmdk qcow2_path (compress_qcow2 cfg) w of
               (Some e, w1) \<Rightarrow> (Inl e, w1)
             | (None, w1) \<Rightarrow> convert_loop c cfg rest (qcow2 @ [qcow2_path]) w1))"

fun delete_loop :: "string list \<Rightarrow> 'x world \<Rightarrow> py_exn option \<times> 'x world" where
  "delete_loop [] w = (None, w)"
| "delete_loop (vmdk # rest) w =
     (case files w vmdk of
        None \<Rightarrow> delete_loop rest w
      | Some nd \<Rightarrow>
          (case unlink vmdk w of
             (Some e, w1) \<Rightarrow> (Some e, w1)
           | (None, w1) \<Rightarrow>
               delete_loop rest
                 (log_info (''Deleted source VMDK: '' @ path_name vmdk @ '' ('' @
                    fmt_mb (case nd of File n \<Rightarrow> n | Dir \<Rightarrow> 0) @ '' MB freed)'') w1)))"

definition stage_convert :: "'x collab \<Rightarrow> AppConfig \<Rightarrow> 'x world handler" where
  "stage_convert c cfg plan state w =
     (let vmdks = (case vmdk_paths (artifacts state) of None \<Rightarrow> [] | Some ps \<Rightarrow> ps)
      in case convert_loop c cfg vmdks [] w of
           (Inl e, w1) \<Rightarrow> (Raised e, artifacts state, w1)
         | (Inr qcow2, w1) \<Rightarrow>
             (let arts = (artifacts state)\<lparr>qcow2_paths := Some qcow2\<rparr>;
                  vmdks2 = (case vmdk_paths arts of None \<Rightarrow> [] | Some ps \<Rightarrow> ps)
              in case delete_loop vmdks2 w1 of
                   (Some e, w2) \<Rightarrow> (Raised e, arts, w2)
                 | (None, w2) \<Rightarrow> (Returned, arts, w2)))"

text \<open>\<^verbatim>\<open>_stage_fix_network\<close> (lines 670-678): one log line.\<close>

definition stage_fix_network :: "'x world handler" where
  "stage_fix_network plan state w =
     (Returned, artifacts state,
      log_info ''Network adaptation already handled in fix_bootloader stage'' w)"

text \<open>
  \<^verbatim>\<open>_stage_import_scw\<close> (lines 714-759). Building the API object only stores the
  credentials. \<^verbatim>\<open>artifacts["s3_bucket"]\<close> is read before \<^verbatim>\<open>s3_keys\<close> is looked at.
\<close>

definition dict_item :: "(string \<times> string) list \<Rightarrow> string \<Rightarrow> py_exn + string" where
  "dict_item d k = (case map_of d k of None \<Rightarrow> Inl (KeyError k) | Some v \<Rightarrow> Inr v)"

definition stage_import_scw :: "'x collab \<Rightarrow> 'x world handler" where
  "stage_import_scw c plan state w =
     (let zn = plan_zone plan
      in case s3_bucket (artifacts state) of
           None \<Rightarrow> (Raised (KeyError ''s3_bucket''), artifacts state, w)
         | Some bucket \<Rightarrow>
             (case (case s3_keys (artifacts state) of None \<Rightarrow> [] | Some ks \<Rightarrow> ks) of
                [] \<Rightarrow>
                  (Raised (RuntimeError (''No S3 keys found '' @ em_dash @
                     '' upload stage may have failed'')), artifacts state, w)
              | boot_key # other_keys \<Rightarrow>
                  (let snap_name =
                         ''vmware2scw-'' @ plan_vm_name plan @ ''-'' @ migration_id state;
                       w1 = log_info (''Creating Scaleway snapshot from s3://'' @ bucket @
                              ''/'' @ boot_key) w
                   in case create_snapshot_from_s3 c zn snap_name bucket boot_key w1 of
                        (Inl e, w2) \<Rightarrow> (Raised e, artifacts state, w2)
                      | (Inr snapshot, w2) \<Rightarrow>
                          (case dict_item snapshot ''id'' of
                             Inl e \<Rightarrow> (Raised e, artifacts state, w2)
                           | Inr snapshot_id \<Rightarrow>
                               (let arts1 = (artifacts state)
                                      \<lparr>scaleway_snapshot_id := Some snapshot_id\<rparr>;
                                    w3 = log_info (''Waiting for snapshot '' @ snapshot_id @
                                           ''...'') w2
                                in case wait_for_snapshot c zn snapshot_id w3 of
                                     (Some e, w4) \<Rightarrow> (Raised e, arts1, w4)
                                   | (None, w4) \<Rightarrow>
                                       (let image_name = ''migrated-'' @ plan_vm_name plan;
                                            w5 = log_info (''Creating Scaleway image '' @
                                                   [CHR 0x27] @ image_name @ [CHR 0x27]) w4
                                        in case create_image c zn image_name snapshot_id w5 of
                                             (Inl e, w6) \<Rightarrow> (Raised e, arts1, w6)
                                           | (Inr img, w6) \<Rightarrow>
                                               (case dict_item img ''id'' of
                                                  Inl e \<Rightarrow> (Raised e, arts1, w6)
                                                | Inr iid \<Rightarrow>
                                                    (Returned,
                                                     arts1\<lparr>scaleway_image_id := Some iid\<rparr>,
                                                     log_info (''Image created: '' @ iid)
                                                       w6))))))))"

text \<open>
  The methods of the class as a table from stage names: the four handlers above, and
  the other methods \<^verbatim>\<open>_stage_*\<close> as a parameter.
\<close>

definition stage_handlers ::
  "'x collab \<Rightarrow> AppConfig \<Rightarrow> (string \<Rightarrow> 'x world handler option) \<Rightarrow>
     string \<Rightarrow> 'x world handler option" where
  "stage_handlers c cfg others stage =
     (if stage = ''clean_tools'' then Some (stage_clean_tools c)
      else if stage = ''convert'' then Some (stage_convert c cfg)
      else if stage = ''fix_network'' then Some stage_fix_network
      else if stage = ''import_scw'' then Some (stage_import_scw c)
      else others stage)"

subsection \<open>The other handlers that read artifacts\<close>

text \<open>
  \<^verbatim>\<open>_stage_validate\<close>, \<^verbatim>\<open>_stage_snapshot\<close> and \<^verbatim>\<open>_stage_export\<close> read no artifact. The
  remaining handlers follow.

  \<^verbatim>\<open>_stage_inject_virtio\<close> (lines 337-471): the guard on the list of disks (lines
  351-359), then the work on the boot disk.
\<close>

definition stage_inject_virtio :: "'x collab \<Rightarrow> 'x world handler" where
  "stage_inject_virtio c plan state w =
     (case get_os_family c (vm_info_get state ''guest_os'' ''otherLinux64Guest'') w of
        (Inl e, w0) \<Rightarrow> (Raised e, artifacts state, w0)
      | (Inr (os_family, variant), w0) \<Rightarrow>
          (case qcow2_list state of
             [] \<Rightarrow>
               (Returned, artifacts state,
                log_warning (''No qcow2 files found '' @ em_dash @
                  '' skipping inject_virtio'') w0)
           | boot_disk # data_disks \<Rightarrow>
               (case inject_virtio_disk c boot_disk os_family w0 of
                  (Some e, w1) \<Rightarrow> (Raised e, artifacts state, w1)
                | (None, w1) \<Rightarrow> (Returned, artifacts state, w1))))"

text \<open>The arguments that \<^verbatim>\<open>_stage_fix_bootloader\<close> passes to \<^verbatim>\<open>virt-customize\<close>.\<close>

definition bootloader_commands :: "string list" where
  "bootloader_commands =
     [''--run-command'',
      ''if [ -f /etc/fstab ]; then   cp /etc/fstab /etc/fstab.vmware2scw.bak;   '' @
        ''sed -i '' @ [CHR 0x27] @
        ''s|/dev/sda|/dev/vda|g; s|/dev/sdb|/dev/vdb|g; s|/dev/sdc|/dev/vdc|g'' @
        [CHR 0x27] @ '' /etc/fstab; fi'',
      ''--run-command'',
      ''if [ -f /etc/default/grub ]; then   cp /etc/default/grub '' @
        ''/etc/default/grub.vmware2scw.bak;   sed -i '' @ [CHR 0x27] @
        ''s|/dev/sda|/dev/vda|g'' @ [CHR 0x27] @ '' /etc/default/grub; fi'',
      ''--run-command'',
      ''if [ -f /boot/grub/device.map ]; then   sed -i '' @ [CHR 0x27] @
        ''s|/dev/sda|/dev/vda|g'' @ [CHR 0x27] @ '' /boot/grub/device.map; fi'',
      ''--run-command'',
      ''if command -v grub-mkconfig >/dev/null 2>&1; then   grub-mkconfig -o '' @
        ''/boot/grub/grub.cfg 2>/dev/null || true; elif command -v grub2-mkconfig '' @
        ''>/dev/null 2>&1; then   grub2-mkconfig -o /boot/grub2/grub.cfg '' @
        ''2>/dev/null || true; fi'',
      ''--run-command'',
      ''if [ -d /etc/initramfs-tools ]; then   for mod in virtio_blk '' @
        ''virtio_scsi virtio_net virtio_pci; do     grep -q $mod '' @
        ''/etc/initramfs-tools/modules 2>/dev/null || echo $mod >> '' @
        ''/etc/initramfs-tools/modules;   done;   update-initramfs -u 2>/dev/null '' @
        ''|| true; elif command -v dracut >/dev/null 2>&1; then   dracut --force '' @
        ''--add-drivers '' @ [CHR 0x27] @
        ''virtio_blk virtio_scsi virtio_net virtio_pci'' @ [CHR 0x27] @
        '' 2>/dev/null || true; fi'',
      ''--run-command'',
      ''rm -f /etc/modprobe.d/*vmw* 2>/dev/null || true; rm -f '' @
        ''/etc/modprobe.d/*vmware* 2>/dev/null || true'',
      ''--run-command'',
      ''rm -f /etc/udev/rules.d/70-persistent-net.rules 2>/dev/null || true; rm '' @
        ''-f /etc/udev/rules.d/75-persistent-net-generator.rules 2>/dev/null || '' @
        ''true'',
      ''--run-command'',
      ''if [ -d /etc/netplan ]; then   cat > /etc/netplan/50-cloud-init.yaml << '' @
        [CHR 0x27] @ ''NETPLAN'' @ [CHR 0x27, CHR 0x0A] @ ''network:'' @ [CHR 0x0A] @
        ''  version: 2'' @ [CHR 0x0A] @ ''  ethernets:'' @ [CHR 0x0A] @ ''    ens2:'' @
        [CHR 0x0A] @ ''      dhcp4: true'' @ [CHR 0x0A] @ ''    eth0:'' @ [CHR 0x0A] @
        ''      dhcp4: true'' @ [CHR 0x0A] @ ''NETPLAN'' @ [CHR 0x0A] @
        ''elif [ -d /etc/sysconfig/network-scripts ]; then   cat > '' @
        ''/etc/sysconfig/network-scripts/ifcfg-eth0 << '' @ [CHR 0x27] @ ''IFCFG'' @
        [CHR 0x27, CHR 0x0A] @ ''DEVICE=eth0'' @ [CHR 0x0A] @ ''ONBOOT=yes'' @
        [CHR 0x0A] @ ''BOOTPROTO=dhcp'' @ [CHR 0x0A] @ ''IFCFG'' @ [CHR 0x0A] @ ''fi'']"

definition right_arrow :: string where
  "right_arrow = [CHR 0xE2, CHR 0x86, CHR 0x92]"

text \<open>
  \<^verbatim>\<open>_stage_fix_bootloader\<close> (lines 515-618). Without a disk it returns without a word;
  for a Windows guest it only logs; otherwise it runs one \<^verbatim>\<open>virt-customize\<close> with
  \<^verbatim>\<open>check=False\<close>.
\<close>

definition stage_fix_bootloader :: "'x collab \<Rightarrow> 'x world handler" where
  "stage_fix_bootloader c plan state w =
     (case get_os_family c (vm_info_get state ''guest_os'' []) w of
        (Inl e, w0) \<Rightarrow> (Raised e, artifacts state, w0)
      | (Inr (os_family, variant), w0) \<Rightarrow>
          (case qcow2_list state of
             [] \<Rightarrow> (Returned, artifacts state, w0)
           | boot_disk # data_disks \<Rightarrow>
               if os_family = ''windows'' then
                 (Returned, artifacts state,
                  log_info (''Windows VM '' @ em_dash @
                    '' bootloader fix not applicable (BCD is handled by VirtIO injection)'')
                    w0)
               else
                 (let w1 = log_info ''Fixing bootloader for KVM compatibility...'' w0
                  in case run_command c
                            ([''virt-customize'', ''-a'', boot_disk] @ bootloader_commands)
                            [(''LIBGUESTFS_BACKEND'', ''direct'')] False w1 of
                       (Some e, w2) \<Rightarrow> (Raised e, artifacts state, w2)
                     | (None, w2) \<Rightarrow>
                         (Returned, artifacts state,
                          log_info ''Bootloader and network configuration fixed for KVM''
                            w2))))"

text \<open>\<^verbatim>\<open>_stage_ensure_uefi\<close> (lines 620-668).\<close>

definition stage_ensure_uefi :: "'x collab \<Rightarrow> 'x world handler" where
  "stage_ensure_uefi c plan state w =
     (let firmware = vm_info_get state ''firmware'' ''bios''
      in case get_os_family c (vm_info_get state ''guest_os'' []) w of
           (Inl e, w0) \<Rightarrow> (Raised e, artifacts state, w0)
         | (Inr (os_family, variant), w0) \<Rightarrow>
             (case qcow2_list state of
                [] \<Rightarrow> (Returned, artifacts state, w0)
              | boot_disk # data_disks \<Rightarrow>
                  (case detect_boot_type c boot_disk w0 of
                     (Inl e, w1) \<Rightarrow> (Raised e, artifacts state, w1)
                   | (Inr boot_type, w1) \<Rightarrow>
                       (let w2 = log_info (''Boot type detection: firmware='' @ firmware @
                                   '', disk='' @ boot_type) w1
                        in if boot_type = ''uefi'' then
                             (Returned, artifacts state,
                              log_info (''Disk already UEFI-bootable '' @ em_dash @
                                '' skipping conversion'') w2)
                           else if os_family = ''windows'' then
                             (Returned, artifacts state,
                              log_warning (''Windows BIOS'' @ right_arrow @
                                ''UEFI requires virt-v2v + virtio-win ISO. '' @
                                ''Manual conversion not supported. Consider using a '' @
                                ''RHEL/CentOS conversion host where virt-v2v works '' @
                                ''correctly.'') w2)
                           else
                             (let w3 = log_info (''Disk is BIOS '' @ em_dash @
                                         '' converting to UEFI for Scaleway compatibility'')
                                         w2
                              in case convert_bios_to_uefi c boot_disk os_family w3 of
                                   (Inl e, w4) \<Rightarrow> (Raised e, artifacts state, w4)
                                 | (Inr converted, w4) \<Rightarrow>
                                     (Returned, artifacts state,
                                      if converted
                                      then log_info (''BIOS '' @ right_arrow @
                                             '' UEFI conversion successful'') w4
                                      else log_warning (''BIOS '' @ right_arrow @
                                             '' UEFI conversion was not performed'')
                                             w4))))))"

text \<open>
  \<^verbatim>\<open>_stage_upload_s3\<close> (lines 680-712); \<open>bucket\<close> is \<^verbatim>\<open>self.config.scaleway.s3_bucket\<close>.
  Building the client only stores the credentials. The bucket is created, if need be,
  before the list of disks is looked at; a disk already in the bucket with the size of
  the local file is not uploaded again. \<^verbatim>\<open>p.stat()\<close> raises on a missing file; the size
  of a directory entry, which hangs on the file system, is taken to be 0.
\<close>

fun upload_loop ::
  "'x collab \<Rightarrow> string \<Rightarrow> string \<Rightarrow> string list \<Rightarrow> string list \<Rightarrow> 'x world \<Rightarrow>
     (py_exn + string list) \<times> 'x world" where
  "upload_loop c bucket mid [] ks w = (Inr ks, w)"
| "upload_loop c bucket mid (qcow2_path # rest) ks w =
     (let key = ''migrations/'' @ mid @ ''/'' @ path_name qcow2_path
      in case check_object_exists c bucket key w of
           (Inl e, w1) \<Rightarrow> (Inl e, w1)
         | (Inr True, w1) \<Rightarrow>
             (case get_object_size c bucket key w1 of
                (Inl e, w2) \<Rightarrow> (Inl e, w2)
              | (Inr remote_size, w2) \<Rightarrow>
                  (case files w2 qcow2_path of
                     None \<Rightarrow> (Inl (FileNotFoundError qcow2_path), w2)
                   | Some nd \<Rightarrow>
                       if remote_size = int (case nd of File n \<Rightarrow> n | Dir \<Rightarrow> 0) then
                         upload_loop c bucket mid rest (ks @ [key])
                           (log_info (''Skipping upload (already exists): '' @ key) w2)
                       else
                         (case upload_image c qcow2_path bucket key w2 of
                            (Some e, w3) \<Rightarrow> (Inl e, w3)
                          | (None, w3) \<Rightarrow>
                              upload_loop c bucket mid rest (ks @ [key]) w3)))
         | (Inr False, w1) \<Rightarrow>
             (case upload_image c qcow2_path bucket key w1 of
                (Some e, w3) \<Rightarrow> (Inl e, w3)
              | (None, w3) \<Rightarrow> upload_loop c bucket mid rest (ks @ [key]) w3))"

definition stage_upload_s3 :: "'x collab \<Rightarrow> string \<Rightarrow> 'x world handler" where
  "stage_upload_s3 c bucket plan state w =
     (case create_bucket_if_not_exists c bucket w of
        (Some e, w1) \<Rightarrow> (Raised e, artifacts state, w1)
      | (None, w1) \<Rightarrow>
          (case upload_loop c bucket (migration_id state) (qcow2_list state) [] w1 of
             (Inl e, w2) \<Rightarrow> (Raised e, artifacts state, w2)
           | (Inr ks, w2) \<Rightarrow>
               (Returned,
                (artifacts state)\<lparr>s3_keys := Some ks, s3_bucket := Some bucket\<rparr>,
                w2)))"

text \<open>
  \<^verbatim>\<open>_stage_verify\<close> (lines 761-772). \<^verbatim>\<open>if image_id\<close> is false for an absent key and for
  an empty string.
\<close>

definition stage_verify :: "'x world handler" where
  "stage_verify plan state w =
     (case scaleway_image_id (artifacts state) of
        Some (ch # chs) \<Rightarrow>
          (Returned, artifacts state,
           log_info ([CHR 0xE2, CHR 0x9C, CHR 0x85] @ '' Scaleway image created: '' @
             ch # chs) w)
      | _ \<Rightarrow>
          (Returned, artifacts state,
           log_warning ([CHR 0xE2, CHR 0x9A, CHR 0xA0, CHR 0xEF, CHR 0xB8, CHR 0x8F] @
             ''  No Scaleway image ID found '' @ em_dash @ '' verify manually'') w))"

text \<open>
  For \<^verbatim>\<open>_stage_cleanup\<close>. \<^verbatim>\<open>work_dir / migration_id\<close>: an absolute right operand
  replaces the left one and an empty one adds nothing; identifiers are single path
  components (\<^verbatim>\<open>run\<close> takes eight characters of a UUID). A path is under a directory
  when it is the directory or lies below it. The size of a tree is the sum of the sizes
  of its regular files, of which a file system holds finitely many.
  \<^verbatim>\<open>f"{size_gb:.1f}"\<close> is the size in GiB rounded to one decimal, a tie going to the even
  digit (the division by a power of two is exact below \<open>2^53\<close> bytes).
  \<^verbatim>\<open>shutil.rmtree(d, ignore_errors=True)\<close> removes a directory with everything under it,
  and leaves a regular file where it is.
\<close>

definition path_join :: "string \<Rightarrow> string \<Rightarrow> string" where
  "path_join a b =
     (if b = [] then a
      else if hd b = CHR ''/'' then b
      else if a = ''.'' then b
      else if a = ''/'' then a @ b
      else a @ ''/'' @ b)"

definition under :: "string \<Rightarrow> string \<Rightarrow> bool" where
  "under d p \<longleftrightarrow> p = d \<or> prefix (if d = ''/'' then d else d @ ''/'') p"

definition tree_size :: "'x world \<Rightarrow> string \<Rightarrow> nat" where
  "tree_size w d =
     (\<Sum>p \<in> {p. under d p \<and> (\<exists>n. files w p = Some (File n))}.
        (case files w p of Some (File n) \<Rightarrow> n | _ \<Rightarrow> 0))"

definition fmt_gb :: "nat \<Rightarrow> string" where
  "fmt_gb sz =
     (let q = (sz * 10) div 1073741824; r = (sz * 10) mod 1073741824;
          t = (if r < 536870912 then q
               else if r > 536870912 then q + 1
               else if even q then q else q + 1)
      in str_of_nat (t div 10) @ ''.'' @ str_of_nat (t mod 10))"

definition rmtree :: "string \<Rightarrow> 'x world \<Rightarrow> 'x world" where
  "rmtree d w =
     (case files w d of
        Some Dir \<Rightarrow> w\<lparr>files := (\<lambda>p. if under d p then None else files w p)\<rparr>
      | _ \<Rightarrow> w)"

text \<open>The deletion of the transit objects (lines 819-824): a failure is logged.\<close>

fun delete_keys :: "'x collab \<Rightarrow> string \<Rightarrow> string list \<Rightarrow> 'x world \<Rightarrow> 'x world" where
  "delete_keys c bucket [] w = w"
| "delete_keys c bucket (key # rest) w =
     (case delete_object c bucket key w of
        (None, w1) \<Rightarrow>
          delete_keys c bucket rest
            (log_info (''Deleted S3 transit: s3://'' @ bucket @ ''/'' @ key) w1)
      | (Some e, w1) \<Rightarrow>
          delete_keys c bucket rest
            (log_warning (''Failed to delete '' @ key @ '': '' @ exn_str e) w1))"

text \<open>
  \<^verbatim>\<open>_stage_cleanup\<close> (lines 774-830); \<open>work_root\<close> is
  \<^verbatim>\<open>self.config.conversion.work_dir\<close>. The work directory is removed whenever it
  exists. The snapshot is deleted when \<^verbatim>\<open>snapshot_name\<close> is there and not empty, the
  transit objects when the image identifier, the keys and the bucket are; failures of
  these two steps are logged, and the handler returns normally in every case.
\<close>

definition stage_cleanup :: "'x collab \<Rightarrow> string \<Rightarrow> 'x world handler" where
  "stage_cleanup c work_root plan state w =
     (let work_dir = path_join work_root (migration_id state);
          w1 = (if files w work_dir \<noteq> None
                then rmtree work_dir
                       (log_info (''Cleaning work directory: '' @ work_dir @ '' ('' @
                          fmt_gb (tree_size w work_dir) @ '' GB)'') w)
                else w);
          w2 = (case snapshot_name (artifacts state) of
                  Some (ch # chs) \<Rightarrow>
                    (case delete_migration_snapshot c (plan_vm_name plan) (ch # chs) w1 of
                       (None, w') \<Rightarrow> log_info (''Deleted VMware snapshot: '' @ ch # chs) w'
                     | (Some e, w') \<Rightarrow>
                         log_warning (''Failed to clean VMware snapshot: '' @ exn_str e) w')
                | _ \<Rightarrow> w1);
          image_id = (case scaleway_image_id (artifacts state) of None \<Rightarrow> [] | Some i \<Rightarrow> i);
          ks = (case s3_keys (artifacts state) of None \<Rightarrow> [] | Some ks \<Rightarrow> ks);
          bucket = (case s3_bucket (artifacts state) of None \<Rightarrow> [] | Some b \<Rightarrow> b);
          w3 = (if image_id \<noteq> [] \<and> ks \<noteq> [] \<and> bucket \<noteq> [] then
                  (case s3_transit_client c w2 of
                     (Some e, w') \<Rightarrow> log_warning (''S3 cleanup failed: '' @ exn_str e) w'
                   | (None, w') \<Rightarrow> delete_keys c bucket ks w')
                else log_info ''S3 transit files retained (image not confirmed or no keys)''
                       w2)
      in (Returned, artifacts state, log_info ''Cleanup complete.'' w3))"

section \<open>The Windows guest mutation engine (converter/windows_virtio.py)\<close>

subsection \<open>Strings and bytes\<close>


text \<open>
  \<^verbatim>\<open>sep.join(parts)\<close>.
\<close>

fun join_with :: "string \<Rightarrow> string list \<Rightarrow> string" where
  "join_with sep [] = []"
| "join_with sep [x] = x"
| "join_with sep (x # y # ys) = x @ sep @ join_with sep (y # ys)"





text \<open>
  \<^verbatim>\<open>s.encode("utf-16-le")\<close>: a code point below \<open>0x10000\<close> is one 16-bit unit, low byte
  first, and a surrogate code point (\<open>0xD800\<close> to \<open>0xDFFF\<close>) cannot be encoded
  (\<^verbatim>\<open>UnicodeEncodeError\<close>); a code point from \<open>0x10000\<close> is a surrogate pair. A Python
  string holds no value from \<open>0x110000\<close> on.
\<close>

definition le16 :: "nat \<Rightarrow> nat list" where
  "le16 u = [u mod 256, u div 256]"

definition encode_code_point :: "nat \<Rightarrow> py_exn + nat list" where
  "encode_code_point c =
     (if c < 0x10000 then
        (if 0xD800 \<le> c \<and> c \<le> 0xDFFF
         then Inl (UnicodeEncodeError ''surrogates not allowed'')
         else Inr (le16 c))
      else if c < 0x110000 then
        Inr (le16 (0xD800 + (c - 0x10000) div 0x400) @
             le16 (0xDC00 + (c - 0x10000) mod 0x400))
      else Inl (OtherError ''not a code point''))"

fun utf16le_encode :: "nat list \<Rightarrow> py_exn + nat list" where
  "utf16le_encode [] = Inr []"
| "utf16le_encode (c # cs) =
     (case encode_code_point c of
        Inl e \<Rightarrow> Inl e
      | Inr bs \<Rightarrow>
          (case utf16le_encode cs of Inl e \<Rightarrow> Inl e | Inr r \<Rightarrow> Inr (bs @ r)))"

text \<open>\<^verbatim>\<open>f"{b:02x}"\<close>: a byte as two lower-case hexadecimal digits.\<close>

definition hex_digit :: "nat \<Rightarrow> char" where
  "hex_digit d = ''0123456789abcdef'' ! d"

definition hex2 :: "nat \<Rightarrow> string" where
  "hex2 b = [hex_digit (b div 16), hex_digit (b mod 16)]"

text \<open>\<^verbatim>\<open>_str_to_reg_expand_sz\<close> (lines 75-78).\<close>

definition str_to_reg_expand_sz :: "nat list \<Rightarrow> py_exn + string" where
  "str_to_reg_expand_sz s =
     (case utf16le_encode s of
        Inl e \<Rightarrow> Inl e
      | Inr enc \<Rightarrow>
          (let raw = enc @ [0, 0]
           in Inr (''hex(2):'' @ join_with '','' (map hex2 raw))))"

text \<open>\<^verbatim>\<open>_str_to_reg_multi_sz\<close> (lines 81-87).\<close>

fun multi_sz_raw :: "nat list list \<Rightarrow> py_exn + nat list" where
  "multi_sz_raw [] = Inr []"
| "multi_sz_raw (s # rest) =
     (case utf16le_encode s of
        Inl e \<Rightarrow> Inl e
      | Inr enc \<Rightarrow>
          (case multi_sz_raw rest of
             Inl e \<Rightarrow> Inl e
           | Inr r \<Rightarrow> Inr (enc @ [0, 0] @ r)))"

definition str_to_reg_multi_sz :: "nat list list \<Rightarrow> py_exn + string" where
  "str_to_reg_multi_sz strings =
     (case multi_sz_raw strings of
        Inl e \<Rightarrow> Inl e
      | Inr enc \<Rightarrow>
          (let raw = enc @ [0, 0]
           in Inr (''hex(7):'' @ join_with '','' (map hex2 raw))))"

subsection \<open>Reading an expandable-string value back\<close>

text \<open>
  Modelled from the spec: the decoder of the round-trip property; the sources have no
  decoder. The tagged value is read back as the spec words it: the tag \<^verbatim>\<open>hex(2):\<close> is
  removed, the comma-separated hexadecimal bytes are parsed, the terminator (the final
  null code unit, two zero bytes) is stripped, and the rest is decoded as UTF-16
  little-endian, strictly (an unpaired surrogate or an odd byte is an error).
\<close>

fun split_on :: "char \<Rightarrow> string \<Rightarrow> string list" where
  "split_on sep [] = [[]]"
| "split_on sep (x # xs) =
     (if x = sep then [] # split_on sep xs
      else (case split_on sep xs of [] \<Rightarrow> [[x]] | y # ys \<Rightarrow> (x # y) # ys))"

definition hex_value :: "char \<Rightarrow> nat option" where
  "hex_value ch =
     (let n = (of_char ch :: nat)
      in if 48 \<le> n \<and> n \<le> 57 then Some (n - 48)
         else if 97 \<le> n \<and> n \<le> 102 then Some (n - 87)
         else if 65 \<le> n \<and> n \<le> 70 then Some (n - 55)
         else None)"

fun parse_hex2 :: "string \<Rightarrow> nat option" where
  "parse_hex2 [a, b] =
     (case (hex_value a, hex_value b) of
        (Some x, Some y) \<Rightarrow> Some (16 * x + y)
      | _ \<Rightarrow> None)"
| "parse_hex2 _ = None"

definition strip_terminator :: "nat list \<Rightarrow> nat list option" where
  "strip_terminator bs =
     (if 2 \<le> length bs \<and> drop (length bs - 2) bs = [0, 0]
      then Some (take (length bs - 2) bs) else None)"

fun utf16le_decode :: "nat list \<Rightarrow> nat list option" where
  "utf16le_decode [] = Some []"
| "utf16le_decode [b] = None"
| "utf16le_decode (b0 # b1 # rest) =
     (let u = b0 + 256 * b1
      in if u < 0xD800 \<or> 0xDFFF < u then map_option ((#) u) (utf16le_decode rest)
         else if u \<le> 0xDBFF then
           (case rest of
              c0 # c1 # rest' \<Rightarrow>
                (let lo = c0 + 256 * c1
                 in if 0xDC00 \<le> lo \<and> lo \<le> 0xDFFF
                    then map_option
                           ((#) (0x10000 + (u - 0xD800) * 0x400 + (lo - 0xDC00)))
                           (utf16le_decode rest')
                    else None)
            | _ \<Rightarrow> None)
         else None)"

definition reg_expand_sz_decode :: "string \<Rightarrow> nat list option" where
  "reg_expand_sz_decode h =
     (if take 7 h = ''hex(2):'' then
        (case those (map parse_hex2 (split_on CHR '','' (drop 7 h))) of
           None \<Rightarrow> None
         | Some bs \<Rightarrow>
             (case strip_terminator bs of
                None \<Rightarrow> None
              | Some enc \<Rightarrow> utf16le_decode enc))
      else None)"

text \<open>The code points a Unicode text consists of: the scalar values.\<close>

definition unicode_scalar :: "nat \<Rightarrow> bool" where
  "unicode_scalar c \<longleftrightarrow> c < 0x110000 \<and> \<not> (0xD800 \<le> c \<and> c \<le> 0xDFFF)"

subsection \<open>Running host tools\<close>


record 'g host =
  hlog :: "(string \<times> string) list"
  calls :: "(string list \<times> (py_exn + int)) list"
  hfiles :: "string \<rightharpoonup> string"
  guest :: 'g


definition hlog_add :: "string \<Rightarrow> string \<Rightarrow> 'g host \<Rightarrow> 'g host" where
  "hlog_add level msg w = w\<lparr>hlog := hlog w @ [(level, msg)]\<rparr>"


subsection \<open>Merging a registry patch\<close>


















section \<open>Test fixtures\<close>

text \<open>
  Handlers for concrete runs: the world is the list of stages that are due to fail, and
  a handler raises (once per entry) when its stage is in that list.
\<close>

definition failing_once :: "string \<Rightarrow> (string list) handler option" where
  "failing_once stage =
     Some (\<lambda>plan st w. if stage \<in> set w
                       then (Raised (RuntimeError ''boom''), artifacts st, remove1 stage w)
                       else (Returned, artifacts st, w))"

definition fresh_system :: "string list \<Rightarrow> (string list) system" where
  "fresh_system w = \<lparr>store = Map.empty, saves = [], invoked = [], world = w\<rparr>"

definition demo_plan :: "bool \<Rightarrow> VMMigrationPlan" where
  "demo_plan skip =
     \<lparr>plan_vm_name = ''vm'', plan_target_type = ''t'', plan_zone = ''z'',
      skip_validation = skip\<rparr>"

text \<open>A run that skips validation and fails at \<^verbatim>\<open>export\<close>.\<close>

definition after_skipped_run :: "(string list) system" where
  "after_skipped_run =
     snd (run failing_once ''m1'' 0 (demo_plan True) (fresh_system [''export'']))"

text \<open>A full run that fails at \<^verbatim>\<open>snapshot\<close>, which will fail once more.\<close>

definition after_snapshot_failure :: "(string list) system" where
  "after_snapshot_failure =
     snd (run failing_once ''m1'' 0 (demo_plan False)
            (fresh_system [''snapshot'', ''snapshot'']))"

text \<open>A full run that fails at \<^verbatim>\<open>export\<close>, which will then succeed.\<close>

definition after_export_failure :: "(string list) system" where
  "after_export_failure =
     snd (run failing_once ''m1'' 0 (demo_plan False) (fresh_system [''export'']))"

text \<open>Collaborators that succeed; the converter writes its target file.\<close>

definition demo_collab :: "unit collab" where
  "demo_collab =
     \<lparr>get_os_family = (\<lambda>guest_os w. (Inr (''linux'', ''generic''), w)),
      cleaner_clean = (\<lambda>disk family w. (None, w)),
      converter_check = (\<lambda>path w. False),
      converter_convert =
        (\<lambda>src dst compress w. (None, w\<lparr>files := (files w)(dst \<mapsto> File 1)\<rparr>)),
      create_snapshot_from_s3 = (\<lambda>zn name bucket key w. (Inr [(''id'', ''snap-1'')], w)),
      wait_for_snapshot = (\<lambda>zn sid w. (None, w)),
      create_image = (\<lambda>zn name sid w. (Inr [(''id'', ''img-1'')], w)),
      inject_virtio_disk = (\<lambda>disk family w. (None, w)),
      run_command = (\<lambda>cmd env check w. (None, w)),
      detect_boot_type = (\<lambda>disk w. (Inr ''bios'', w)),
      convert_bios_to_uefi = (\<lambda>disk family w. (Inr True, w)),
      create_bucket_if_not_exists = (\<lambda>bucket w. (None, w)),
      check_object_exists = (\<lambda>bucket key w. (Inr False, w)),
      get_object_size = (\<lambda>bucket key w. (Inr 0, w)),
      upload_image = (\<lambda>path bucket key w. (None, w)),
      delete_migration_snapshot = (\<lambda>vm snap w. (None, w)),
      s3_transit_client = (\<lambda>w. (None, w)),
      delete_object = (\<lambda>bucket key w. (None, w))\<rparr>"

definition demo_world :: "unit world" where
  "demo_world =
     \<lparr>wlog = [], files = [''/w/m1/disk1.vmdk'' \<mapsto> File 3145728], outside = ()\<rparr>"

definition demo_state :: "artifacts \<Rightarrow> MigrationState" where
  "demo_state arts =
     \<lparr>migration_id = ''m1'', vm_name = ''vm'', target_type = ''t'', zone = ''z'',
      current_stage = [], completed_stages = [], artifacts = arts, started_at = 0,
      error = None\<rparr>"

text \<open>A host whose work directory holds the converted disk of migration \<^verbatim>\<open>m1\<close>.\<close>

definition converted_world :: "unit world" where
  "converted_world =
     \<lparr>wlog = [],
      files = [''/w'' \<mapsto> Dir, ''/w/m1'' \<mapsto> Dir, ''/w/m1/disk1.qcow2'' \<mapsto> File 3145728],
      outside = ()\<rparr>"






section \<open>Properties of the pipeline\<close>

subsection \<open>Auxiliary facts\<close>

lemmas fixture_defs =
  run_def resume_def load_def save_def execute_stage_def remaining_stages_def STAGES_def
  failing_once_def fresh_system_def demo_plan_def Let_def

lemma STAGES_distinct: "distinct STAGES"
  by (simp add: STAGES_def)

lemma save_saves [simp]: "saves (save st sys) = saves sys @ [st]"
  and save_invoked [simp]: "invoked (save st sys) = invoked sys"
  and save_world [simp]: "world (save st sys) = world sys"
  and save_store [simp]: "store (save st sys) = (store sys)(migration_id st \<mapsto> st)"
  by (simp_all add: save_def)

lemma filter_not_in_take:
  assumes "distinct xs"
  shows "filter (\<lambda>x. x \<notin> set (take j xs)) xs = drop j xs"
proof -
  have "xs = take j xs @ drop j xs" by simp
  then have "filter (\<lambda>x. x \<notin> set (take j xs)) xs =
      filter (\<lambda>x. x \<notin> set (take j xs)) (take j xs) @
      filter (\<lambda>x. x \<notin> set (take j xs)) (drop j xs)"
    by (metis filter_append)
  moreover have "filter (\<lambda>x. x \<notin> set (take j xs)) (take j xs) = []" by simp
  moreover have "filter (\<lambda>x. x \<notin> set (take j xs)) (drop j xs) = drop j xs"
    using assms by (metis append_take_drop_id distinct_append disjoint_iff filter_True)
  ultimately show ?thesis by simp
qed

lemma subseq_take_self: "subseq (take j xs) xs"
  by (simp add: prefix_imp_subseq take_is_prefix)

text \<open>What one call of \<^verbatim>\<open>_execute_stage\<close> leaves alone.\<close>

lemma execute_stage_cases:
  assumes "execute_stage hs n plan st sys = (r, st', sys')"
  shows "completed_stages st' = completed_stages st \<and> saves sys' = saves sys
     \<and> store sys' = store sys \<and> migration_id st' = migration_id st
     \<and> ((hs n = None \<and> invoked sys' = invoked sys \<and> (\<exists>e. r = Raised e))
          \<or> (hs n \<noteq> None \<and> invoked sys' = invoked sys @ [n]))"
  using assms by (auto simp: execute_stage_def split: option.splits prod.splits)

text \<open>
  The handlers the loop invokes: a prefix of its stage list, all of it when no stage
  fails, and up to the failing stage otherwise.
\<close>

lemma run_stages_invoked:
  "run_stages hs plan ns st sys = (r, st', sys') \<Longrightarrow>
     \<exists>xs. invoked sys' = invoked sys @ xs \<and> prefix xs ns \<and> (r = None \<longrightarrow> xs = ns)
        \<and> (\<forall>f e. r = Some (f, e) \<and> hs f \<noteq> None \<and> distinct ns \<longrightarrow>
               xs = takeWhile (\<lambda>s. s \<noteq> f) ns @ [f])"
proof (induction ns arbitrary: st sys)
  case Nil
  then show ?case by simp
next
  case (Cons n ns)
  let ?st1 = "st\<lparr>current_stage := n\<rparr>"
  obtain o1 st2 sys2 where
    ex: "execute_stage hs n plan ?st1 (save ?st1 sys) = (o1, st2, sys2)"
    by (metis prod_cases3)
  note ec = execute_stage_cases[OF ex]
  show ?case
  proof (cases o1)
    case Returned
    with ec have inv2: "invoked sys2 = invoked sys @ [n]" by auto
    let ?st3 = "st2\<lparr>completed_stages := completed_stages st2 @ [n]\<rparr>"
    from Cons.prems ex Returned
    have rec: "run_stages hs plan ns ?st3 (save ?st3 sys2) = (r, st', sys')"
      by (simp add: Let_def)
    from Cons.IH[OF rec] obtain xs where
      xs: "invoked sys' = invoked (save ?st3 sys2) @ xs" "prefix xs ns"
        "r = None \<longrightarrow> xs = ns"
        "\<forall>f e. r = Some (f, e) \<and> hs f \<noteq> None \<and> distinct ns \<longrightarrow>
           xs = takeWhile (\<lambda>s. s \<noteq> f) ns @ [f]"
      by blast
    have mem: "\<forall>f e. r = Some (f, e) \<and> hs f \<noteq> None \<and> distinct ns \<longrightarrow> f \<in> set ns"
      using xs(2,4) by (metis in_set_conv_decomp set_mono_prefix subsetD)
    show ?thesis
      apply (rule exI[of _ "n # xs"])
      using xs inv2 mem by auto
  next
    case (Raised e)
    with Cons.prems ex
    have r: "r = Some (n, e)" "sys' = save (st2\<lparr>error := Some (exn_str e)\<rparr>) sys2"
      by (auto simp: Let_def)
    show ?thesis
    proof (cases "hs n")
      case None
      with ec have "invoked sys2 = invoked sys" by auto
      with r None show ?thesis by (intro exI[of _ "[]"]) auto
    next
      case (Some h)
      with ec have "invoked sys2 = invoked sys @ [n]" by auto
      with r Some show ?thesis by (intro exI[of _ "[n]"]) auto
    qed
  qed
qed

text \<open>
  The states the loop saves: each holds the initial \<^verbatim>\<open>completed_stages\<close> followed by a
  prefix of the stage list, and the lists only grow.
\<close>

lemma run_stages_saves:
  "run_stages hs plan ns st sys = (r, st', sys') \<Longrightarrow>
     \<exists>new k. saves sys' = saves sys @ new \<and> k \<le> length ns
        \<and> completed_stages st' = completed_stages st @ take k ns
        \<and> (r = None \<longrightarrow> k = length ns)
        \<and> (\<forall>s\<in>set new. \<exists>j\<le>k. completed_stages s = completed_stages st @ take j ns)
        \<and> sorted_wrt prefix (map completed_stages new)
        \<and> (ns \<noteq> [] \<longrightarrow> new \<noteq> [] \<and> last new = st')"
proof (induction ns arbitrary: st sys)
  case Nil
  then show ?case by simp
next
  case (Cons n ns)
  let ?st1 = "st\<lparr>current_stage := n\<rparr>"
  obtain o1 st2 sys2 where
    ex: "execute_stage hs n plan ?st1 (save ?st1 sys) = (o1, st2, sys2)"
    by (metis prod_cases3)
  note ec = execute_stage_cases[OF ex]
  from ec have c2: "completed_stages st2 = completed_stages st"
    and s2: "saves sys2 = saves sys @ [?st1]" by auto
  show ?case
  proof (cases o1)
    case Returned
    let ?st3 = "st2\<lparr>completed_stages := completed_stages st2 @ [n]\<rparr>"
    from Cons.prems ex Returned
    have rec: "run_stages hs plan ns ?st3 (save ?st3 sys2) = (r, st', sys')"
      by (simp add: Let_def)
    from Cons.IH[OF rec] obtain new k where
      ih: "saves sys' = saves (save ?st3 sys2) @ new" "k \<le> length ns"
        "completed_stages st' = completed_stages ?st3 @ take k ns"
        "r = None \<longrightarrow> k = length ns"
        "\<forall>s\<in>set new. \<exists>j\<le>k. completed_stages s = completed_stages ?st3 @ take j ns"
        "sorted_wrt prefix (map completed_stages new)"
        "ns \<noteq> [] \<longrightarrow> new \<noteq> [] \<and> last new = st'"
      by blast
    have lastnew: "st' = ?st3 \<and> new = []" if "ns = []"
    proof -
      from rec that have e: "st' = ?st3" "sys' = save ?st3 sys2" by auto
      from ih(1) e(2) have "saves (save ?st3 sys2) = saves (save ?st3 sys2) @ new"
        by simp
      then have "new = []" by simp
      with e show ?thesis by simp
    qed
    have A: "\<forall>s\<in>set (?st1 # ?st3 # new).
               \<exists>j\<le>Suc k. completed_stages s = completed_stages st @ take j (n # ns)"
    proof
      fix s assume "s \<in> set (?st1 # ?st3 # new)"
      then consider "s = ?st1" | "s = ?st3" | "s \<in> set new" by auto
      then show "\<exists>j\<le>Suc k. completed_stages s = completed_stages st @ take j (n # ns)"
      proof cases
        case 1 then show ?thesis by (intro exI[of _ 0]) simp
      next
        case 2 then show ?thesis using c2 by (intro exI[of _ 1]) simp
      next
        case 3
        with ih(5) obtain j where
          "j \<le> k" "completed_stages s = completed_stages ?st3 @ take j ns" by blast
        then show ?thesis using c2 by (intro exI[of _ "Suc j"]) simp
      qed
    qed
    have B: "sorted_wrt prefix (map completed_stages (?st1 # ?st3 # new))"
      using ih(5,6) c2 by (auto simp: prefix_def)
    show ?thesis
      apply (rule exI[of _ "?st1 # ?st3 # new"])
      apply (rule exI[of _ "Suc k"])
      using ih(1,2,3,4,7) s2 c2 A B lastnew by auto
  next
    case (Raised e)
    let ?st3 = "st2\<lparr>error := Some (exn_str e)\<rparr>"
    from Raised Cons.prems ex
    have r: "r = Some (n, e)" "sys' = save ?st3 sys2" "st' = ?st3"
      by (auto simp: Let_def)
    show ?thesis
      apply (rule exI[of _ "[?st1, ?st3]"])
      apply (rule exI[of _ 0])
      using r s2 c2 by auto
  qed
qed

text \<open>\<^verbatim>\<open>resume\<close> on a persisted state is the loop over the remaining stages.\<close>

lemma resume_run_stages:
  assumes "load mid sys = Some st" and "resume hs mid sys = (res, sys')"
  shows "\<exists>r st'. run_stages hs
            \<lparr>plan_vm_name = vm_name st, plan_target_type = target_type st,
             plan_zone = zone st, skip_validation = False\<rparr>
            (remaining_stages st) (st\<lparr>error := None\<rparr>) sys = (r, st', sys')
       \<and> (\<forall>x. res = Inr x \<and> success x \<longrightarrow> r = None)
       \<and> (\<forall>x f. res = Inr x \<and> failed_stage x = Some f \<longrightarrow> (\<exists>e. r = Some (f, e)))"
proof (cases "remaining_stages st = []")
  case True
  with assms show ?thesis by (auto simp: resume_def)
next
  case False
  obtain r st' s2 where
    "run_stages hs
       \<lparr>plan_vm_name = vm_name st, plan_target_type = target_type st,
        plan_zone = zone st, skip_validation = False\<rparr>
       (remaining_stages st) (st\<lparr>error := None\<rparr>) sys = (r, st', s2)"
    by (metis prod_cases3)
  with assms False show ?thesis
    by (auto simp: resume_def Let_def split: option.splits)
qed

subsection \<open>The stage registry\<close>

text \<open>
  Claim C3. In the declared stage sequence \<^verbatim>\<open>STAGES\<close>, \<^verbatim>\<open>convert\<close> comes strictly
  before \<^verbatim>\<open>clean_tools\<close> (positions 3 and 4, counted from 0) and \<^verbatim>\<open>fix_bootloader\<close>
  strictly before \<^verbatim>\<open>ensure_uefi\<close> (positions 6 and 7); no stage is listed twice, so
  these are the only positions of the four names.
\<close>

theorem STAGES_ordering:
  "index_of ''convert'' STAGES = Some 3 \<and> index_of ''clean_tools'' STAGES = Some 4
   \<and> index_of ''fix_bootloader'' STAGES = Some 6 \<and> index_of ''ensure_uefi'' STAGES = Some 7
   \<and> distinct STAGES"
  by (simp add: STAGES_def)

subsection \<open>Resuming\<close>

text \<open>
  Claim C8. When the persisted \<^verbatim>\<open>completed_stages\<close> contains every stage of the
  registry, \<^verbatim>\<open>resume\<close> returns a success result at once: the system is returned as it
  was, so nothing was saved, no handler was invoked and the world is untouched.
\<close>

theorem resume_nothing_remaining:
  assumes "load mid sys = Some st" and "set STAGES \<subseteq> set (completed_stages st)"
  shows "resume hs mid sys =
     (Inr \<lparr>success = True, res_migration_id = mid, res_vm_name = vm_name st,
           instance_id = None, image_id = None, failed_stage = None, res_error = None,
           res_completed_stages = completed_stages st\<rparr>, sys)"
proof -
  from assms(2) have "remaining_stages st = []"
    by (auto simp: remaining_stages_def filter_empty_conv)
  with assms(1) show ?thesis by (simp add: resume_def)
qed

text \<open>
  Witness for C8: the migration that failed at \<^verbatim>\<open>export\<close> is resumed to the end, and a
  second \<^verbatim>\<open>resume\<close> returns success and the system unchanged.
\<close>

theorem resume_nothing_remaining_witness:
  "load ''m1'' (snd (resume failing_once ''m1'' after_export_failure)) \<noteq> None
   \<and> resume failing_once ''m1'' (snd (resume failing_once ''m1'' after_export_failure)) =
       (Inr \<lparr>success = True, res_migration_id = ''m1'', res_vm_name = ''vm'',
             instance_id = None, image_id = None, failed_stage = None, res_error = None,
             res_completed_stages = STAGES\<rparr>,
        snd (resume failing_once ''m1'' after_export_failure))"
proof -
  let ?s = "snd (resume failing_once ''m1'' after_export_failure)"
  obtain st where h1: "load ''m1'' ?s = Some st"
    and cs: "completed_stages st = STAGES" "vm_name st = ''vm''"
    by (simp add: after_export_failure_def fixture_defs)
  have h2: "set STAGES \<subseteq> set (completed_stages st)" using cs by simp
  from resume_nothing_remaining[OF h1 h2, of failing_once] cs h1 show ?thesis by simp
qed

text \<open>
  Claim C1, as stated, fails: \<^verbatim>\<open>resume\<close> stops at the first stage that raises, so it
  need not execute every registry stage missing from \<^verbatim>\<open>completed_stages\<close>. Here a run
  failed at \<^verbatim>\<open>snapshot\<close> with \<^verbatim>\<open>validate\<close> completed; \<^verbatim>\<open>snapshot\<close> fails again on
  \<^verbatim>\<open>resume\<close>, which has then invoked that one handler and none of the eleven stages
  after it.
\<close>

theorem resume_stops_at_failure_counterexample:
  "map_option completed_stages (load ''m1'' after_snapshot_failure) = Some [''validate'']
   \<and> invoked after_snapshot_failure = [''validate'', ''snapshot'']
   \<and> invoked (snd (resume failing_once ''m1'' after_snapshot_failure)) =
       [''validate'', ''snapshot''] @ [''snapshot'']
   \<and> filter (\<lambda>s. s \<notin> set [''validate'']) STAGES =
       [''snapshot'', ''export'', ''convert'', ''clean_tools'', ''inject_virtio'',
        ''fix_bootloader'', ''ensure_uefi'', ''fix_network'', ''upload_s3'', ''import_scw'',
        ''verify'', ''cleanup'']"
  by (simp add: after_snapshot_failure_def fixture_defs)

text \<open>
  Claim C1, amended. For a persisted state with \<^verbatim>\<open>completed_stages\<close> \<open>C\<close>, the handlers
  \<^verbatim>\<open>resume\<close> invokes are a prefix of the registry stages not in \<open>C\<close>, in registry
  order, and none of them is in \<open>C\<close>. When \<^verbatim>\<open>resume\<close> reports success they are
  precisely the registry sequence minus \<open>C\<close>; when it reports a failed stage (one that
  has a handler) they are the stages of that sequence up to and including the failed
  one. Nothing depends on whether the original run skipped validation.
\<close>

theorem resume_runs_remaining_prefix:
  assumes "load mid sys = Some st" and "resume hs mid sys = (res, sys')"
  shows "\<exists>xs. invoked sys' = invoked sys @ xs
     \<and> prefix xs (filter (\<lambda>s. s \<notin> set (completed_stages st)) STAGES)
     \<and> set xs \<inter> set (completed_stages st) = {}
     \<and> (\<forall>r. res = Inr r \<and> success r \<longrightarrow>
            xs = filter (\<lambda>s. s \<notin> set (completed_stages st)) STAGES)
     \<and> (\<forall>r f. res = Inr r \<and> failed_stage r = Some f \<and> hs f \<noteq> None \<longrightarrow>
            xs = takeWhile (\<lambda>s. s \<noteq> f)
                   (filter (\<lambda>s. s \<notin> set (completed_stages st)) STAGES) @ [f])"
proof -
  let ?rem = "filter (\<lambda>s. s \<notin> set (completed_stages st)) STAGES"
  from resume_run_stages[OF assms] obtain r st' where
    rs: "run_stages hs
           \<lparr>plan_vm_name = vm_name st, plan_target_type = target_type st,
            plan_zone = zone st, skip_validation = False\<rparr>
           ?rem (st\<lparr>error := None\<rparr>) sys = (r, st', sys')"
    and ok: "\<forall>x. res = Inr x \<and> success x \<longrightarrow> r = None"
    and ko: "\<forall>x f. res = Inr x \<and> failed_stage x = Some f \<longrightarrow> (\<exists>e. r = Some (f, e))"
    unfolding remaining_stages_def by blast
  from run_stages_invoked[OF rs] obtain xs where
    xs: "invoked sys' = invoked sys @ xs" "prefix xs ?rem" "r = None \<longrightarrow> xs = ?rem"
      "\<forall>f e. r = Some (f, e) \<and> hs f \<noteq> None \<and> distinct ?rem \<longrightarrow>
         xs = takeWhile (\<lambda>s. s \<noteq> f) ?rem @ [f]"
    by blast
  have d: "distinct ?rem" using STAGES_distinct by simp
  have "set xs \<subseteq> set ?rem" using xs(2) by (rule set_mono_prefix)
  then have disj: "set xs \<inter> set (completed_stages st) = {}" by auto
  show ?thesis
    apply (rule exI[of _ xs])
    using xs ok ko d disj by blast
qed

text \<open>
  Witness for C1: the migration that failed at \<^verbatim>\<open>export\<close> after \<^verbatim>\<open>validate\<close> and
  \<^verbatim>\<open>snapshot\<close>; \<^verbatim>\<open>resume\<close> succeeds and has invoked exactly the other eleven stages.
\<close>

theorem resume_runs_remaining_prefix_witness:
  "map_option completed_stages (load ''m1'' after_export_failure) =
     Some [''validate'', ''snapshot'']
   \<and> invoked (snd (resume failing_once ''m1'' after_export_failure)) =
       invoked after_export_failure @
       filter (\<lambda>s. s \<notin> set [''validate'', ''snapshot'']) STAGES"
proof -
  let ?r = "resume failing_once ''m1'' after_export_failure"
  obtain st where h1: "load ''m1'' after_export_failure = Some st"
    and cs: "completed_stages st = [''validate'', ''snapshot'']"
    by (simp add: after_export_failure_def fixture_defs)
  have h2: "?r = (fst ?r, snd ?r)" by simp
  have h3: "\<exists>r. fst ?r = Inr r \<and> success r"
    by (simp add: after_export_failure_def fixture_defs)
  from resume_runs_remaining_prefix[OF h1 h2] h3 cs h1 show ?thesis by auto
qed

subsection \<open>The history of \<^verbatim>\<open>completed_stages\<close>\<close>

text \<open>
  How the saved lists grow. The states saved during \<^verbatim>\<open>run\<close> have \<^verbatim>\<open>completed_stages\<close>
  lists that only grow by appending, each a duplicate-free subsequence of the registry
  sequence, whether or not the plan skips validation. The states saved during \<^verbatim>\<open>resume\<close>
  of a persisted list \<open>C\<close> have lists that only grow by appending, starting from \<open>C\<close>,
  each being \<open>C\<close> followed by a prefix of the registry stages not in \<open>C\<close>; they are
  duplicate-free subsequences of the registry sequence when \<open>C\<close> is an initial segment
  of the registry.
\<close>

lemma completed_stages_history:
  "(run hs mid now plan sys = (res, sys') \<longrightarrow>
      (\<exists>new. saves sys' = saves sys @ new \<and> sorted_wrt prefix (map completed_stages new)
         \<and> (\<forall>s\<in>set new. subseq (completed_stages s) STAGES
                \<and> distinct (completed_stages s))))
   \<and> (load rid rsys = Some st \<and> resume rhs rid rsys = (res2, sys2) \<longrightarrow>
      (\<exists>new. saves sys2 = saves rsys @ new
         \<and> sorted_wrt prefix (completed_stages st # map completed_stages new)
         \<and> (\<forall>s\<in>set new. \<exists>k. completed_stages s =
               completed_stages st @
               take k (filter (\<lambda>x. x \<notin> set (completed_stages st)) STAGES))
         \<and> ((\<exists>j. completed_stages st = take j STAGES) \<longrightarrow>
               (\<forall>s\<in>set new. subseq (completed_stages s) STAGES
                  \<and> distinct (completed_stages s)))))"
proof (intro conjI impI)
  assume run: "run hs mid now plan sys = (res, sys')"
  let ?st0 = "\<lparr>migration_id = mid, vm_name = plan_vm_name plan,
               target_type = plan_target_type plan, zone = plan_zone plan,
               current_stage = [], completed_stages = [], artifacts = no_artifacts,
               started_at = now, error = None\<rparr>"
  let ?ns = "(if skip_validation plan then filter (\<lambda>s. s \<noteq> ''validate'') STAGES
             else STAGES)"
  obtain r st' s2 where rs: "run_stages hs plan ?ns ?st0 (save ?st0 sys) = (r, st', s2)"
    by (metis prod_cases3)
  with run have s2: "s2 = sys'" by (auto simp: run_def Let_def split: option.splits)
  from run_stages_saves[OF rs] obtain new k where
    n: "saves s2 = saves (save ?st0 sys) @ new"
      "\<forall>s\<in>set new. \<exists>j\<le>k. completed_stages s = completed_stages ?st0 @ take j ?ns"
      "sorted_wrt prefix (map completed_stages new)"
    by blast
  have sub: "subseq ?ns STAGES" by simp
  have dis: "distinct ?ns" using STAGES_distinct by simp
  have each: "\<forall>s\<in>set (?st0 # new).
                subseq (completed_stages s) STAGES \<and> distinct (completed_stages s)"
  proof
    fix s assume "s \<in> set (?st0 # new)"
    then consider "s = ?st0" | "s \<in> set new" by auto
    then show "subseq (completed_stages s) STAGES \<and> distinct (completed_stages s)"
    proof cases
      case 1 then show ?thesis by simp
    next
      case 2
      with n(2) obtain j where "completed_stages s = take j ?ns" by auto
      moreover have "subseq (take j ?ns) ?ns" by (rule subseq_take_self)
      then have "subseq (take j ?ns) STAGES"
        using sub by (rule subseq_order.order_trans)
      moreover have "distinct (take j ?ns)" using dis by (rule distinct_take)
      ultimately show ?thesis by simp
    qed
  qed
  have "sorted_wrt prefix (map completed_stages (?st0 # new))"
    using n(3) by simp
  moreover have "saves sys' = saves sys @ (?st0 # new)" using n(1) s2 by simp
  ultimately
  show "\<exists>new. saves sys' = saves sys @ new \<and> sorted_wrt prefix (map completed_stages new)
         \<and> (\<forall>s\<in>set new. subseq (completed_stages s) STAGES
               \<and> distinct (completed_stages s))"
    using each by blast
next
  assume a: "load rid rsys = Some st \<and> resume rhs rid rsys = (res2, sys2)"
  let ?rem = "filter (\<lambda>x. x \<notin> set (completed_stages st)) STAGES"
  from a resume_run_stages[of rid rsys st rhs res2 sys2] obtain r st' where
    rs: "run_stages rhs
           \<lparr>plan_vm_name = vm_name st, plan_target_type = target_type st,
            plan_zone = zone st, skip_validation = False\<rparr>
           ?rem (st\<lparr>error := None\<rparr>) rsys = (r, st', sys2)"
    unfolding remaining_stages_def by blast
  from run_stages_saves[OF rs] obtain new k where
    n: "saves sys2 = saves rsys @ new"
      "\<forall>s\<in>set new. \<exists>j\<le>k. completed_stages s = completed_stages st @ take j ?rem"
      "sorted_wrt prefix (map completed_stages new)"
    by auto
  have pre: "\<forall>s\<in>set new. prefix (completed_stages st) (completed_stages s)"
    using n(2) by (auto simp: prefix_def)
  have pos: "\<forall>s\<in>set new. subseq (completed_stages s) STAGES \<and> distinct (completed_stages s)"
    if "\<exists>j. completed_stages st = take j STAGES"
  proof
    fix s assume s: "s \<in> set new"
    from that obtain j where j: "completed_stages st = take j STAGES" by blast
    from s n(2) obtain i where
      "completed_stages s = completed_stages st @ take i ?rem" by blast
    with j have "completed_stages s = take j STAGES @ take i (drop j STAGES)"
      using filter_not_in_take[OF STAGES_distinct, of j] by simp
    then have "completed_stages s = take (j + i) STAGES"
      by (simp add: take_add)
    moreover have "subseq (take (j + i) STAGES) STAGES" by (rule subseq_take_self)
    moreover have "distinct (take (j + i) STAGES)"
      using STAGES_distinct by (rule distinct_take)
    ultimately show "subseq (completed_stages s) STAGES \<and> distinct (completed_stages s)"
      by simp
  qed
  show "\<exists>new. saves sys2 = saves rsys @ new
         \<and> sorted_wrt prefix (completed_stages st # map completed_stages new)
         \<and> (\<forall>s\<in>set new. \<exists>k. completed_stages s = completed_stages st @ take k ?rem)
         \<and> ((\<exists>j. completed_stages st = take j STAGES) \<longrightarrow>
               (\<forall>s\<in>set new. subseq (completed_stages s) STAGES
                  \<and> distinct (completed_stages s)))"
  proof (intro exI[of _ new] conjI)
    show "saves sys2 = saves rsys @ new" by (rule n(1))
    show "sorted_wrt prefix (completed_stages st # map completed_stages new)"
      using n(3) pre by simp
    show "\<forall>s\<in>set new. \<exists>k. completed_stages s = completed_stages st @ take k ?rem"
      using n(2) by blast
    show "(\<exists>j. completed_stages st = take j STAGES) \<longrightarrow>
            (\<forall>s\<in>set new. subseq (completed_stages s) STAGES
               \<and> distinct (completed_stages s))"
      using pos by blast
  qed
qed

text \<open>
  Claim C2 (at every point during \<^verbatim>\<open>run\<close> and \<^verbatim>\<open>resume\<close>, also the resume of a run that
  skipped \<^verbatim>\<open>validate\<close>, \<^verbatim>\<open>completed_stages\<close> is in registry order) at the resume of a
  run that skipped validation. The run failed at \<^verbatim>\<open>export\<close> with only \<^verbatim>\<open>snapshot\<close>
  completed. \<^verbatim>\<open>resume\<close> builds its plan without \<^verbatim>\<open>skip_validation\<close> and takes every
  registry stage not yet completed: it runs \<^verbatim>\<open>validate\<close> first and appends it after
  \<^verbatim>\<open>snapshot\<close>, so the persisted list is not a subsequence of the registry sequence.
\<close>

theorem resume_after_skipped_validation:
  "map_option completed_stages (load ''m1'' after_skipped_run) = Some [''snapshot'']
   \<and> map_option completed_stages
       (load ''m1'' (snd (resume failing_once ''m1'' after_skipped_run))) =
       Some [''snapshot'', ''validate'', ''export'', ''convert'', ''clean_tools'',
             ''inject_virtio'', ''fix_bootloader'', ''ensure_uefi'', ''fix_network'',
             ''upload_s3'', ''import_scw'', ''verify'', ''cleanup'']
   \<and> \<not> subseq [''snapshot'', ''validate'', ''export'', ''convert'', ''clean_tools'',
             ''inject_virtio'', ''fix_bootloader'', ''ensure_uefi'', ''fix_network'',
             ''upload_s3'', ''import_scw'', ''verify'', ''cleanup''] STAGES"
  by (simp add: after_skipped_run_def fixture_defs)

section \<open>Properties of the stage handlers\<close>

subsection \<open>Auxiliary facts\<close>

lemma unlink_ok:
  "unlink p w = (None, w') \<Longrightarrow>
     files w' = (files w)(p := None) \<and> wlog w' = wlog w \<and> outside w' = outside w"
  by (auto simp: unlink_def split: option.splits node.splits)

text \<open>The deletion loop never creates a file.\<close>

lemma delete_loop_absent:
  "delete_loop ps w = (r, w') \<Longrightarrow> files w q = None \<Longrightarrow> files w' q = None"
proof (induction ps arbitrary: w)
  case Nil
  then show ?case by simp
next
  case (Cons p ps)
  show ?case
  proof (cases "files w p")
    case None
    with Cons show ?thesis by simp
  next
    case (Some nd)
    obtain e w1 where u: "unlink p w = (e, w1)" by (metis prod.exhaust)
    show ?thesis
    proof (cases e)
      case None
      with u have f1: "files w1 = (files w)(p := None)" using unlink_ok by blast
      from Cons.prems(1) Some u None obtain m where
        "delete_loop ps (log_info m w1) = (r, w')" by simp
      moreover have "files (log_info m w1) q = None"
        using f1 Cons.prems(2) by (simp add: log_info_def)
      ultimately show ?thesis using Cons.IH by blast
    next
      case (Some ex)
      with Cons.prems \<open>files w p = Some nd\<close> u have "w' = w1" by simp
      moreover from u Some have "w1 = w"
        by (auto simp: unlink_def split: option.splits node.splits)
      ultimately show ?thesis using Cons.prems(2) by simp
    qed
  qed
qed

text \<open>When the deletion loop finishes without an exception, every listed path is gone.\<close>

lemma delete_loop_deleted:
  "delete_loop ps w = (None, w') \<Longrightarrow> \<forall>p\<in>set ps. files w' p = None"
proof (induction ps arbitrary: w)
  case Nil
  then show ?case by simp
next
  case (Cons p ps)
  show ?case
  proof (cases "files w p")
    case None
    with Cons.prems have d: "delete_loop ps w = (None, w')" by simp
    from Cons.IH[OF d] delete_loop_absent[OF d None] show ?thesis by simp
  next
    case (Some nd)
    obtain e w1 where u: "unlink p w = (e, w1)" by (metis prod.exhaust)
    with Cons.prems Some have e: "e = None" by (cases e) auto
    with u have f1: "files w1 = (files w)(p := None)" using unlink_ok by blast
    from Cons.prems Some u e obtain m where
      d: "delete_loop ps (log_info m w1) = (None, w')" by simp
    have "files (log_info m w1) p = None" using f1 by (simp add: log_info_def)
    from Cons.IH[OF d] delete_loop_absent[OF d this] show ?thesis by simp
  qed
qed

text \<open>The conversion loop collects the \<^verbatim>\<open>.qcow2\<close> path of every VMDK, in order.\<close>

lemma convert_loop_paths:
  "convert_loop c cfg vmdks acc w = (Inr qs, w') \<Longrightarrow>
     map Inr qs = map Inr acc @ map (\<lambda>p. with_suffix p ''.qcow2'') vmdks"
proof (induction vmdks arbitrary: acc w)
  case Nil
  then show ?case by auto
next
  case (Cons p ps)
  from Cons.prems obtain q where q: "with_suffix p ''.qcow2'' = Inr q"
    by (cases "with_suffix p ''.qcow2''") auto
  from Cons.prems q obtain w1 where
    "convert_loop c cfg ps (acc @ [q]) w1 = (Inr qs, w')"
    by (auto split: if_splits prod.splits option.splits)
  from Cons.IH[OF this] q show ?case by simp
qed

subsection \<open>Missing artifacts\<close>

text \<open>
  Claim C7, as stated of any stage handler, fails for \<^verbatim>\<open>cleanup\<close>. Its optional
  artifacts (\<^verbatim>\<open>snapshot_name\<close>, \<^verbatim>\<open>scaleway_image_id\<close>, \<^verbatim>\<open>s3_keys\<close>, \<^verbatim>\<open>s3_bucket\<close>) only
  gate the deletion of the remote snapshot and of the transit objects. Invoked with
  none of them in the bag, on a host whose work directory holds the converted disk, it
  returns normally and has removed the work directory with the disk in it.
\<close>

theorem cleanup_removes_work_dir_counterexample:
  "snapshot_name (artifacts (demo_state no_artifacts)) = None
   \<and> scaleway_image_id (artifacts (demo_state no_artifacts)) = None
   \<and> s3_keys (artifacts (demo_state no_artifacts)) = None
   \<and> s3_bucket (artifacts (demo_state no_artifacts)) = None
   \<and> files converted_world ''/w/m1/disk1.qcow2'' = Some (File 3145728)
   \<and> fst (stage_cleanup demo_collab ''/w'' (demo_plan False) (demo_state no_artifacts)
        converted_world) = Returned
   \<and> files (snd (snd (stage_cleanup demo_collab ''/w'' (demo_plan False)
        (demo_state no_artifacts) converted_world))) ''/w/m1/disk1.qcow2'' = None
   \<and> files (snd (snd (stage_cleanup demo_collab ''/w'' (demo_plan False)
        (demo_state no_artifacts) converted_world))) ''/w/m1'' = None"
  by (simp add: stage_cleanup_def demo_state_def no_artifacts_def converted_world_def
      demo_collab_def path_join_def rmtree_def under_def log_info_def Let_def)

text \<open>
  Claim C7, amended. Invoked with no \<^verbatim>\<open>qcow2_paths\<close> in the bag (or an empty list), each
  handler that reads the converted disks as an optional artifact does nothing to any
  disk. \<^verbatim>\<open>clean_tools\<close>, \<^verbatim>\<open>inject_virtio\<close>, \<^verbatim>\<open>fix_bootloader\<close> and \<^verbatim>\<open>ensure_uefi\<close> call
  nothing but the lookup of the OS family, which comes before the guard: when the
  lookup raises so do they, and when it returns they return normally with the bag as it
  was and the world as the lookup left it, the first two adding one warning to the log.
  \<^verbatim>\<open>upload_s3\<close> calls nothing but the creation of the bucket: when that returns it
  returns normally, having set \<^verbatim>\<open>s3_keys\<close> to the empty list and \<^verbatim>\<open>s3_bucket\<close>, the rest
  of the bag as it was. \<^verbatim>\<open>convert\<close> with no \<^verbatim>\<open>vmdk_paths\<close> (or an empty list) returns
  normally with the world untouched, having set \<^verbatim>\<open>qcow2_paths\<close> to the empty list.
  \<^verbatim>\<open>verify\<close> with no \<^verbatim>\<open>scaleway_image_id\<close> returns normally with the bag as it was and
  one warning in the log. \<^verbatim>\<open>import_scw\<close> invoked with no \<^verbatim>\<open>s3_keys\<close> in the bag (or an
  empty list) raises, with the bag and the world as they were.
\<close>

theorem missing_artifact_handling:
  "(qcow2_paths (artifacts st) = None \<or> qcow2_paths (artifacts st) = Some [] \<longrightarrow>
      stage_clean_tools c plan st w =
        (case get_os_family c (vm_info_get st ''guest_os'' ''otherLinux64Guest'') w of
           (Inl e, w0) \<Rightarrow> (Raised e, artifacts st, w0)
         | (Inr fam, w0) \<Rightarrow>
             (Returned, artifacts st,
              w0\<lparr>wlog := wlog w0 @
                 [(''WARNING'',
                   ''No qcow2 files found '' @ em_dash @ '' skipping clean_tools'')]\<rparr>))
    \<and> stage_inject_virtio c plan st w =
        (case get_os_family c (vm_info_get st ''guest_os'' ''otherLinux64Guest'') w of
           (Inl e, w0) \<Rightarrow> (Raised e, artifacts st, w0)
         | (Inr fam, w0) \<Rightarrow>
             (Returned, artifacts st,
              w0\<lparr>wlog := wlog w0 @
                 [(''WARNING'',
                   ''No qcow2 files found '' @ em_dash @ '' skipping inject_virtio'')]\<rparr>))
    \<and> stage_fix_bootloader c plan st w =
        (case get_os_family c (vm_info_get st ''guest_os'' []) w of
           (Inl e, w0) \<Rightarrow> (Raised e, artifacts st, w0)
         | (Inr fam, w0) \<Rightarrow> (Returned, artifacts st, w0))
    \<and> stage_ensure_uefi c plan st w =
        (case get_os_family c (vm_info_get st ''guest_os'' []) w of
           (Inl e, w0) \<Rightarrow> (Raised e, artifacts st, w0)
         | (Inr fam, w0) \<Rightarrow> (Returned, artifacts st, w0))
    \<and> stage_upload_s3 c bucket plan st w =
        (case create_bucket_if_not_exists c bucket w of
           (Some e, w1) \<Rightarrow> (Raised e, artifacts st, w1)
         | (None, w1) \<Rightarrow>
             (Returned, (artifacts st)\<lparr>s3_keys := Some [], s3_bucket := Some bucket\<rparr>, w1)))
   \<and> (vmdk_paths (artifacts st) = None \<or> vmdk_paths (artifacts st) = Some [] \<longrightarrow>
      stage_convert c cfg plan st w =
        (Returned, (artifacts st)\<lparr>qcow2_paths := Some []\<rparr>, w))
   \<and> (scaleway_image_id (artifacts st) = None \<longrightarrow>
      stage_verify plan st w =
        (Returned, artifacts st,
         w\<lparr>wlog := wlog w @
            [(''WARNING'',
              [CHR 0xE2, CHR 0x9A, CHR 0xA0, CHR 0xEF, CHR 0xB8, CHR 0x8F] @
              ''  No Scaleway image ID found '' @ em_dash @ '' verify manually'')]\<rparr>))
   \<and> (s3_keys (artifacts st) = None \<or> s3_keys (artifacts st) = Some [] \<longrightarrow>
      (\<exists>e. stage_import_scw c plan st w = (Raised e, artifacts st, w)))"
proof (intro conjI impI)
  assume q: "qcow2_paths (artifacts st) = None \<or> qcow2_paths (artifacts st) = Some []"
  then have l: "qcow2_list st = []" by (auto simp: qcow2_list_def)
  show "stage_clean_tools c plan st w =
        (case get_os_family c (vm_info_get st ''guest_os'' ''otherLinux64Guest'') w of
           (Inl e, w0) \<Rightarrow> (Raised e, artifacts st, w0)
         | (Inr fam, w0) \<Rightarrow>
             (Returned, artifacts st,
              w0\<lparr>wlog := wlog w0 @
                 [(''WARNING'',
                   ''No qcow2 files found '' @ em_dash @ '' skipping clean_tools'')]\<rparr>))"
    using l by (simp add: stage_clean_tools_def log_warning_def split: prod.splits sum.splits)
  show "stage_inject_virtio c plan st w =
        (case get_os_family c (vm_info_get st ''guest_os'' ''otherLinux64Guest'') w of
           (Inl e, w0) \<Rightarrow> (Raised e, artifacts st, w0)
         | (Inr fam, w0) \<Rightarrow>
             (Returned, artifacts st,
              w0\<lparr>wlog := wlog w0 @
                 [(''WARNING'',
                   ''No qcow2 files found '' @ em_dash @ '' skipping inject_virtio'')]\<rparr>))"
    using l by (simp add: stage_inject_virtio_def log_warning_def split: prod.splits sum.splits)
  show "stage_fix_bootloader c plan st w =
        (case get_os_family c (vm_info_get st ''guest_os'' []) w of
           (Inl e, w0) \<Rightarrow> (Raised e, artifacts st, w0)
         | (Inr fam, w0) \<Rightarrow> (Returned, artifacts st, w0))"
    using l by (simp add: stage_fix_bootloader_def split: prod.splits sum.splits)
  show "stage_ensure_uefi c plan st w =
        (case get_os_family c (vm_info_get st ''guest_os'' []) w of
           (Inl e, w0) \<Rightarrow> (Raised e, artifacts st, w0)
         | (Inr fam, w0) \<Rightarrow> (Returned, artifacts st, w0))"
    using l by (simp add: stage_ensure_uefi_def Let_def split: prod.splits sum.splits)
  show "stage_upload_s3 c bucket plan st w =
        (case create_bucket_if_not_exists c bucket w of
           (Some e, w1) \<Rightarrow> (Raised e, artifacts st, w1)
         | (None, w1) \<Rightarrow>
             (Returned, (artifacts st)\<lparr>s3_keys := Some [], s3_bucket := Some bucket\<rparr>, w1))"
    using l by (simp add: stage_upload_s3_def split: prod.splits option.splits)
next
  assume "vmdk_paths (artifacts st) = None \<or> vmdk_paths (artifacts st) = Some []"
  then show "stage_convert c cfg plan st w =
        (Returned, (artifacts st)\<lparr>qcow2_paths := Some []\<rparr>, w)"
    by (auto simp: stage_convert_def)
next
  assume "scaleway_image_id (artifacts st) = None"
  then show "stage_verify plan st w =
        (Returned, artifacts st,
         w\<lparr>wlog := wlog w @
            [(''WARNING'',
              [CHR 0xE2, CHR 0x9A, CHR 0xA0, CHR 0xEF, CHR 0xB8, CHR 0x8F] @
              ''  No Scaleway image ID found '' @ em_dash @ '' verify manually'')]\<rparr>)"
    by (simp add: stage_verify_def log_warning_def)
next
  assume "s3_keys (artifacts st) = None \<or> s3_keys (artifacts st) = Some []"
  then show "\<exists>e. stage_import_scw c plan st w = (Raised e, artifacts st, w)"
    by (auto simp: stage_import_scw_def Let_def split: option.splits)
qed


text \<open>
  Witness for C7: a bag that holds only the bucket name and an empty \<^verbatim>\<open>s3_keys\<close>, with
  collaborators that succeed.
\<close>

theorem missing_artifact_handling_witness:
  "qcow2_paths (no_artifacts\<lparr>s3_bucket := Some ''b'', s3_keys := Some []\<rparr>) = None
   \<and> fst (stage_clean_tools demo_collab (demo_plan False)
        (demo_state (no_artifacts\<lparr>s3_bucket := Some ''b'', s3_keys := Some []\<rparr>))
        demo_world) = Returned
   \<and> fst (stage_inject_virtio demo_collab (demo_plan False)
        (demo_state (no_artifacts\<lparr>s3_bucket := Some ''b'', s3_keys := Some []\<rparr>))
        demo_world) = Returned
   \<and> stage_fix_bootloader demo_collab (demo_plan False)
        (demo_state (no_artifacts\<lparr>s3_bucket := Some ''b'', s3_keys := Some []\<rparr>))
        demo_world =
      (Returned, no_artifacts\<lparr>s3_bucket := Some ''b'', s3_keys := Some []\<rparr>, demo_world)
   \<and> stage_ensure_uefi demo_collab (demo_plan False)
        (demo_state (no_artifacts\<lparr>s3_bucket := Some ''b'', s3_keys := Some []\<rparr>))
        demo_world =
      (Returned, no_artifacts\<lparr>s3_bucket := Some ''b'', s3_keys := Some []\<rparr>, demo_world)
   \<and> stage_upload_s3 demo_collab ''transit'' (demo_plan False)
        (demo_state (no_artifacts\<lparr>s3_bucket := Some ''b'', s3_keys := Some []\<rparr>))
        demo_world =
      (Returned, no_artifacts\<lparr>s3_bucket := Some ''transit'', s3_keys := Some []\<rparr>,
       demo_world)
   \<and> stage_convert demo_collab \<lparr>compress_qcow2 = True\<rparr> (demo_plan False)
        (demo_state (no_artifacts\<lparr>s3_bucket := Some ''b'', s3_keys := Some []\<rparr>))
        demo_world =
      (Returned,
       no_artifacts\<lparr>s3_bucket := Some ''b'', s3_keys := Some [], qcow2_paths := Some []\<rparr>,
       demo_world)
   \<and> fst (stage_verify (demo_plan False)
        (demo_state (no_artifacts\<lparr>s3_bucket := Some ''b'', s3_keys := Some []\<rparr>))
        demo_world) = Returned
   \<and> fst (stage_import_scw demo_collab (demo_plan False)
        (demo_state (no_artifacts\<lparr>s3_bucket := Some ''b'', s3_keys := Some []\<rparr>))
        demo_world) =
      Raised (RuntimeError (''No S3 keys found '' @ em_dash @
        '' upload stage may have failed''))"
proof -
  let ?a = "no_artifacts\<lparr>s3_bucket := Some ''b'', s3_keys := Some []\<rparr>"
  have a: "artifacts (demo_state ?a) = ?a" by (simp add: demo_state_def)
  have h1: "qcow2_paths (artifacts (demo_state ?a)) = None
      \<or> qcow2_paths (artifacts (demo_state ?a)) = Some []"
    by (simp add: demo_state_def no_artifacts_def)
  have h2: "vmdk_paths (artifacts (demo_state ?a)) = None
      \<or> vmdk_paths (artifacts (demo_state ?a)) = Some []"
    by (simp add: demo_state_def no_artifacts_def)
  have h3: "scaleway_image_id (artifacts (demo_state ?a)) = None"
    by (simp add: demo_state_def no_artifacts_def)
  have h4: "s3_keys (artifacts (demo_state ?a)) = None
      \<or> s3_keys (artifacts (demo_state ?a)) = Some []"
    by (simp add: demo_state_def no_artifacts_def)
  have h5: "s3_bucket (artifacts (demo_state ?a)) = Some ''b''"
    by (simp add: demo_state_def no_artifacts_def)
  have os: "get_os_family demo_collab g demo_world = (Inr (''linux'', ''generic''), demo_world)"
    for g by (simp add: demo_collab_def)
  have cb: "create_bucket_if_not_exists demo_collab ''transit'' demo_world = (None, demo_world)"
    by (simp add: demo_collab_def)
  note t = missing_artifact_handling[of "demo_state ?a" demo_collab "demo_plan False"
      demo_world "''transit''" "\<lparr>compress_qcow2 = True\<rparr>"]
  note q = t[THEN conjunct1, THEN mp, OF h1]
  note v = t[THEN conjunct2, THEN conjunct1, THEN mp, OF h2]
  note i = t[THEN conjunct2, THEN conjunct2, THEN conjunct1, THEN mp, OF h3]
  from q os have p1:
    "fst (stage_clean_tools demo_collab (demo_plan False) (demo_state ?a) demo_world)
       = Returned"
    "fst (stage_inject_virtio demo_collab (demo_plan False) (demo_state ?a) demo_world)
       = Returned"
    "stage_fix_bootloader demo_collab (demo_plan False) (demo_state ?a) demo_world
       = (Returned, ?a, demo_world)"
    "stage_ensure_uefi demo_collab (demo_plan False) (demo_state ?a) demo_world
       = (Returned, ?a, demo_world)"
    by (simp_all add: a)
  from q cb have p2:
    "stage_upload_s3 demo_collab ''transit'' (demo_plan False) (demo_state ?a) demo_world
       = (Returned, ?a\<lparr>s3_keys := Some [], s3_bucket := Some ''transit''\<rparr>, demo_world)"
    by (simp add: a)
  from v have p3:
    "stage_convert demo_collab \<lparr>compress_qcow2 = True\<rparr> (demo_plan False) (demo_state ?a)
       demo_world = (Returned, ?a\<lparr>qcow2_paths := Some []\<rparr>, demo_world)"
    by (simp add: a)
  from i have p4:
    "fst (stage_verify (demo_plan False) (demo_state ?a) demo_world) = Returned"
    by simp
  from t h4 obtain e where
    e: "stage_import_scw demo_collab (demo_plan False) (demo_state ?a) demo_world =
          (Raised e, artifacts (demo_state ?a), demo_world)" by blast
  with h4 h5 have "e = RuntimeError (''No S3 keys found '' @ em_dash @
      '' upload stage may have failed'')"
    by (auto simp: stage_import_scw_def Let_def)
  with e p1 p2 p3 p4 show ?thesis by (simp add: no_artifacts_def)
qed

subsection \<open>The convert stage\<close>

text \<open>
  Claim C9. When \<^verbatim>\<open>convert\<close> returns normally, no path listed under \<^verbatim>\<open>vmdk_paths\<close>
  exists on disk any more, the \<^verbatim>\<open>vmdk_paths\<close> entry of the bag is what it was, and the
  bag differs from the one received only in \<^verbatim>\<open>qcow2_paths\<close>, which holds the
  \<^verbatim>\<open>.qcow2\<close> path of each listed VMDK.
\<close>

theorem convert_deletes_vmdk:
  assumes "stage_convert c cfg plan st w = (Returned, arts, w')"
  shows "(\<forall>p\<in>set (case vmdk_paths (artifacts st) of None \<Rightarrow> [] | Some ps \<Rightarrow> ps).
            files w' p = None)
       \<and> vmdk_paths arts = vmdk_paths (artifacts st)
       \<and> (\<exists>qs. arts = (artifacts st)\<lparr>qcow2_paths := Some qs\<rparr>
              \<and> map Inr qs = map (\<lambda>p. with_suffix p ''.qcow2'')
                    (case vmdk_paths (artifacts st) of None \<Rightarrow> [] | Some ps \<Rightarrow> ps))"
proof -
  let ?vm = "case vmdk_paths (artifacts st) of None \<Rightarrow> [] | Some ps \<Rightarrow> ps"
  obtain r1 w1 where cl: "convert_loop c cfg ?vm [] w = (r1, w1)" by (metis prod.exhaust)
  with assms obtain qs where qs: "r1 = Inr qs"
    by (cases r1) (auto simp: stage_convert_def)
  obtain r2 w2 where dl: "delete_loop ?vm w1 = (r2, w2)" by (metis prod.exhaust)
  from assms cl qs dl have r2: "r2 = None"
    and a: "arts = (artifacts st)\<lparr>qcow2_paths := Some qs\<rparr>"
    and w2: "w2 = w'"
    by (cases r2; auto simp: stage_convert_def Let_def)+
  from delete_loop_deleted dl r2 w2 have "\<forall>p\<in>set ?vm. files w' p = None" by blast
  moreover from convert_loop_paths cl qs
  have "map Inr qs = map (\<lambda>p. with_suffix p ''.qcow2'') ?vm"
    by fastforce
  ultimately show ?thesis using a by auto
qed

text \<open>
  Witness for C9: one exported disk of 3 MiB; after the stage the VMDK is gone, the
  qcow2 is there, and the bag names both.
\<close>

theorem convert_deletes_vmdk_witness:
  "fst (stage_convert demo_collab \<lparr>compress_qcow2 = True\<rparr> (demo_plan False)
        (demo_state (no_artifacts\<lparr>vmdk_paths := Some [''/w/m1/disk1.vmdk'']\<rparr>))
        demo_world) = Returned
   \<and> files (snd (snd (stage_convert demo_collab \<lparr>compress_qcow2 = True\<rparr>
        (demo_plan False)
        (demo_state (no_artifacts\<lparr>vmdk_paths := Some [''/w/m1/disk1.vmdk'']\<rparr>))
        demo_world))) ''/w/m1/disk1.vmdk'' = None
   \<and> vmdk_paths (fst (snd (stage_convert demo_collab \<lparr>compress_qcow2 = True\<rparr>
        (demo_plan False)
        (demo_state (no_artifacts\<lparr>vmdk_paths := Some [''/w/m1/disk1.vmdk'']\<rparr>))
        demo_world))) = Some [''/w/m1/disk1.vmdk'']"
proof -
  let ?st = "demo_state (no_artifacts\<lparr>vmdk_paths := Some [''/w/m1/disk1.vmdk'']\<rparr>)"
  let ?r = "stage_convert demo_collab \<lparr>compress_qcow2 = True\<rparr> (demo_plan False) ?st
      demo_world"
  have ret: "fst ?r = Returned"
    by (simp add: stage_convert_def demo_collab_def demo_state_def demo_world_def
        no_artifacts_def with_suffix_def path_name_def path_suffix_def unlink_def
        log_info_def Let_def)
  then have h: "?r = (Returned, fst (snd ?r), snd (snd ?r))"
    by (metis prod.collapse)
  have v: "vmdk_paths (artifacts ?st) = Some [''/w/m1/disk1.vmdk'']"
    by (simp add: demo_state_def)
  from convert_deletes_vmdk[OF h] v ret show ?thesis by simp
qed

subsection \<open>The fix-network stage\<close>

text \<open>
  Claim C10. \<^verbatim>\<open>fix_network\<close> returns normally with the artifact bag it received and a
  world that differs by one log line only; executed through \<^verbatim>\<open>_execute_stage\<close>, the
  migration state comes back exactly as it went in, whatever the plan and the state.
\<close>

theorem fix_network_noop:
  "stage_fix_network plan st w =
     (Returned, artifacts st,
      w\<lparr>wlog := wlog w @
         [(''INFO'', ''Network adaptation already handled in fix_bootloader stage'')]\<rparr>)
   \<and> execute_stage (stage_handlers c cfg others) ''fix_network'' plan st sys =
     (Returned, st,
      sys\<lparr>invoked := invoked sys @ [''fix_network''],
          world := (world sys)\<lparr>wlog := wlog (world sys) @
             [(''INFO'',
               ''Network adaptation already handled in fix_bootloader stage'')]\<rparr>\<rparr>)"
  by (simp add: stage_fix_network_def log_info_def execute_stage_def stage_handlers_def)

section \<open>Properties of the guest mutation engine\<close>

subsection \<open>Auxiliary facts on the encoding\<close>

lemma hex_digit_cases:
  assumes "(d::nat) < 16"
  obtains "d = 0" | "d = 1" | "d = 2" | "d = 3" | "d = 4" | "d = 5" | "d = 6" | "d = 7"
    | "d = 8" | "d = 9" | "d = 10" | "d = 11" | "d = 12" | "d = 13" | "d = 14" | "d = 15"
proof -
  from assms have "d = 0 \<or> d = 1 \<or> d = 2 \<or> d = 3 \<or> d = 4 \<or> d = 5 \<or> d = 6 \<or> d = 7
    \<or> d = 8 \<or> d = 9 \<or> d = 10 \<or> d = 11 \<or> d = 12 \<or> d = 13 \<or> d = 14 \<or> d = 15"
    by presburger
  then show ?thesis using that by blast
qed

lemma hex_value_digit: "d < 16 \<Longrightarrow> hex_value (hex_digit d) = Some d"
  by (erule hex_digit_cases) (simp_all add: hex_digit_def hex_value_def)

lemma hex_digit_not_comma: "d < 16 \<Longrightarrow> hex_digit d \<noteq> CHR '',''"
  by (erule hex_digit_cases) (simp_all add: hex_digit_def)

lemma parse_hex2_hex2: "b < 256 \<Longrightarrow> parse_hex2 (hex2 b) = Some b"
proof -
  assume b: "b < 256"
  then have "b div 16 < 16" "b mod 16 < 16" by auto
  then show ?thesis by (simp add: hex2_def hex_value_digit)
qed

lemma hex2_no_comma: "b < 256 \<Longrightarrow> CHR '','' \<notin> set (hex2 b)"
proof -
  assume b: "b < 256"
  then have "b div 16 < 16" "b mod 16 < 16" by auto
  then have "hex_digit (b div 16) \<noteq> CHR '',''" "hex_digit (b mod 16) \<noteq> CHR '',''"
    by (simp_all add: hex_digit_not_comma)
  then show ?thesis by (simp add: hex2_def)
qed

lemma split_on_no_sep: "sep \<notin> set x \<Longrightarrow> split_on sep x = [x]"
  by (induction x) auto

lemma split_on_append:
  "sep \<notin> set x \<Longrightarrow> split_on sep (x @ sep # r) = x # split_on sep r"
  by (induction x) auto

lemma split_join:
  "xs \<noteq> [] \<Longrightarrow> \<forall>x\<in>set xs. sep \<notin> set x \<Longrightarrow>
     split_on sep (join_with [sep] xs) = xs"
proof (induction xs rule: induct_list012)
  case 1 then show ?case by simp
next
  case (2 x) then show ?case by (simp add: split_on_no_sep)
next
  case (3 x y ys)
  then show ?case by (simp add: split_on_append)
qed

lemma those_map_Some:
  "\<forall>x\<in>set xs. f x = Some (g x) \<Longrightarrow> those (map f xs) = Some (map g xs)"
  by (induction xs) auto

lemma encode_code_point_bytes:
  "encode_code_point c = Inr bs \<Longrightarrow> \<forall>b\<in>set bs. b < 256"
  by (auto simp: encode_code_point_def le16_def split: if_splits)

lemma utf16le_encode_bytes:
  "utf16le_encode s = Inr bs \<Longrightarrow> \<forall>b\<in>set bs. b < 256"
proof (induction s arbitrary: bs)
  case Nil then show ?case by simp
next
  case (Cons c cs)
  from Cons.prems obtain b1 b2 where
    b: "encode_code_point c = Inr b1" "utf16le_encode cs = Inr b2" "bs = b1 @ b2"
    by (auto split: sum.splits)
  from encode_code_point_bytes[OF b(1)] Cons.IH[OF b(2)] b(3) show ?case by auto
qed

lemma decode_code_point:
  assumes "unicode_scalar c"
  shows "\<exists>bs. encode_code_point c = Inr bs \<and>
           utf16le_decode (bs @ r) = map_option ((#) c) (utf16le_decode r)"
proof (cases "c < 0x10000")
  case True
  with assms have ns: "c < 0xD800 \<or> 0xDFFF < c" by (auto simp: unicode_scalar_def)
  have e: "encode_code_point c = Inr (le16 c)"
    using True ns by (auto simp: encode_code_point_def)
  have u: "c mod 256 + 256 * (c div 256) = c" by simp
  show ?thesis using e ns u by (auto simp: le16_def Let_def)
next
  case False
  with assms have c: "0x10000 \<le> c" "c < 0x110000" by (auto simp: unicode_scalar_def)
  define v where "v = c - 0x10000"
  define hi where "hi = 0xD800 + v div 0x400"
  define lo where "lo = 0xDC00 + v mod 0x400"
  have v: "v < 0x100000" "c = 0x10000 + v" using c by (auto simp: v_def)
  have hi: "0xD800 \<le> hi" "hi \<le> 0xDBFF" using v by (auto simp: hi_def)
  have lo: "0xDC00 \<le> lo" "lo \<le> 0xDFFF" by (auto simp: lo_def)
  have e: "encode_code_point c = Inr (le16 hi @ le16 lo)"
    using c by (auto simp: encode_code_point_def hi_def lo_def v_def)
  have uh: "hi mod 256 + 256 * (hi div 256) = hi"
    and ul: "lo mod 256 + 256 * (lo div 256) = lo"
    by simp_all
  have recon: "0x10000 + (hi - 0xD800) * 0x400 + (lo - 0xDC00) = c"
    using v by (simp add: hi_def lo_def)
  have "utf16le_decode ((le16 hi @ le16 lo) @ r) = map_option ((#) c) (utf16le_decode r)"
    using hi lo recon by (simp add: le16_def uh ul Let_def del: mult_Suc)
  with e show ?thesis by blast
qed

lemma decode_encode:
  "\<forall>c\<in>set s. unicode_scalar c \<Longrightarrow>
     \<exists>bs. utf16le_encode s = Inr bs \<and>
          utf16le_decode (bs @ r) = map_option ((@) s) (utf16le_decode r)"
proof (induction s)
  case Nil
  then show ?case by (simp add: option.map_ident)
next
  case (Cons c cs)
  then obtain bs where bs: "utf16le_encode cs = Inr bs"
     "utf16le_decode (bs @ r) = map_option ((@) cs) (utf16le_decode r)" by auto
  from Cons.prems decode_code_point[of c "bs @ r"] obtain b1 where
    b1: "encode_code_point c = Inr b1"
      "utf16le_decode (b1 @ bs @ r) = map_option ((#) c) (utf16le_decode (bs @ r))"
    by auto
  show ?case using bs b1 by (simp add: option.map_comp comp_def)
qed

subsection \<open>The expandable-string round trip\<close>

text \<open>
  Claim C4. For every text \<open>s\<close> of Unicode scalar values, the empty text included,
  \<^verbatim>\<open>_str_to_reg_expand_sz\<close> yields a value (it does not raise), and reading that value
  back (tag removed, hexadecimal bytes parsed, terminator stripped, decoded as UTF-16
  little-endian) yields \<open>s\<close>.
\<close>

theorem reg_expand_sz_roundtrip:
  assumes "list_all unicode_scalar s"
  shows "\<exists>h. str_to_reg_expand_sz s = Inr h \<and> reg_expand_sz_decode h = Some s"
proof -
  from assms have sc: "\<forall>c\<in>set s. unicode_scalar c" by (simp add: list_all_iff)
  from decode_encode[OF sc, of "[]"] obtain enc where
    enc: "utf16le_encode s = Inr enc" "utf16le_decode enc = Some s" by auto
  let ?raw = "enc @ [0, 0]"
  let ?h = "''hex(2):'' @ join_with '','' (map hex2 ?raw)"
  have h: "str_to_reg_expand_sz s = Inr ?h"
    using enc(1) by (simp add: str_to_reg_expand_sz_def)
  have bytes: "\<forall>b\<in>set ?raw. b < 256" using utf16le_encode_bytes[OF enc(1)] by auto
  have "split_on CHR '','' (join_with '','' (map hex2 ?raw)) = map hex2 ?raw"
    using bytes by (intro split_join) (auto simp: hex2_no_comma)
  moreover have "those (map parse_hex2 (map hex2 ?raw)) = Some (map id ?raw)"
    unfolding map_map using bytes by (intro those_map_Some) (auto simp: parse_hex2_hex2)
  moreover have "strip_terminator ?raw = Some enc" by (simp add: strip_terminator_def)
  ultimately have "reg_expand_sz_decode ?h = Some s"
    using enc(2) by (simp add: reg_expand_sz_decode_def)
  with h show ?thesis by blast
qed

text \<open>
  Witness for C4: the text of the three code points \<open>a\<close>, \<open>U+00E9\<close> and \<open>U+1F600\<close>
  (a surrogate pair in UTF-16), and the empty text.
\<close>

theorem reg_expand_sz_roundtrip_witness:
  "list_all unicode_scalar [0x61, 0xE9, 0x1F600]
   \<and> str_to_reg_expand_sz [0x61, 0xE9, 0x1F600] = Inr ''hex(2):61,00,e9,00,3d,d8,00,de,00,00''
   \<and> reg_expand_sz_decode ''hex(2):61,00,e9,00,3d,d8,00,de,00,00'' = Some [0x61, 0xE9, 0x1F600]
   \<and> list_all unicode_scalar []
   \<and> str_to_reg_expand_sz [] = Inr ''hex(2):00,00''
   \<and> reg_expand_sz_decode ''hex(2):00,00'' = Some []"
proof -
  have h1: "list_all unicode_scalar [0x61, 0xE9, 0x1F600]"
    by (simp add: unicode_scalar_def)
  have h2: "list_all unicode_scalar []" by simp
  have e1: "str_to_reg_expand_sz [0x61, 0xE9, 0x1F600] =
      Inr ''hex(2):61,00,e9,00,3d,d8,00,de,00,00''"
    by (simp add: str_to_reg_expand_sz_def encode_code_point_def le16_def hex2_def
        hex_digit_def)
  have e2: "str_to_reg_expand_sz [] = Inr ''hex(2):00,00''"
    by (simp add: str_to_reg_expand_sz_def hex2_def hex_digit_def)
  from reg_expand_sz_roundtrip[OF h1] e1 reg_expand_sz_roundtrip[OF h2] e2 h1 h2 show ?thesis by auto
qed

subsection \<open>Auxiliary facts on the registry merge\<close>

lemma hlog_add_calls [simp]: "calls (hlog_add l m w) = calls w"
  and hlog_add_hfiles [simp]: "hfiles (hlog_add l m w) = hfiles w"
  and hlog_add_guest [simp]: "guest (hlog_add l m w) = guest w"
  by (simp_all add: hlog_add_def)















subsection \<open>The registry merge and its fallbacks\<close>





end
